theory Spec2Isabelle
  imports
    Complex_Main
    "HOL-Library.Char_ord"
    "HOL-Library.List_Lexorder"
    "HOL-Library.Product_Lexorder"
    "HOL-Library.Sublist"
    "HOL-Library.AList"
    "HOL-Library.Multiset"
begin

section \<open>Ingredient expiry tracker: data model, derived views and storage\<close>

text \<open>
  A shallow embedding of \<^verbatim>\<open>js/dataModel.js\<close>, of \<^verbatim>\<open>calculateBarPosition\<close> (ganttChart.js),
  of \<^verbatim>\<open>searchIngredients\<close> (js/search.js) and of the localStorage variant of
  \<^verbatim>\<open>updateIngredient\<close> (js/storage.js). What the JavaScript host supplies (the clock, the
  local time zone, \<^verbatim>\<open>Date\<close> parsing, \<^verbatim>\<open>toISOString\<close>, \<^verbatim>\<open>Math.random\<close>, the storage quota)
  is a parameter of every function that uses it.
\<close>

subsection \<open>JavaScript numbers\<close>

text \<open>
  A Number is either \<^verbatim>\<open>NaN\<close> or a finite value. Finite values are kept exact (rationals):
  rounding of IEEE doubles is not modelled. Infinities do not arise, because every divisor
  in the source is a positive constant.
\<close>

datatype jsnum = NaN | Num rat

fun js_add :: "jsnum \<Rightarrow> jsnum \<Rightarrow> jsnum" where
  "js_add (Num a) (Num b) = Num (a + b)"
| "js_add _ _ = NaN"

fun js_sub :: "jsnum \<Rightarrow> jsnum \<Rightarrow> jsnum" where
  "js_sub (Num a) (Num b) = Num (a - b)"
| "js_sub _ _ = NaN"

fun js_mul :: "jsnum \<Rightarrow> jsnum \<Rightarrow> jsnum" where
  "js_mul (Num a) (Num b) = Num (a * b)"
| "js_mul _ _ = NaN"

fun js_div :: "jsnum \<Rightarrow> jsnum \<Rightarrow> jsnum" where
  "js_div (Num a) (Num b) = (if b = 0 then NaN else Num (a / b))"
| "js_div _ _ = NaN"

fun Math_ceil :: "jsnum \<Rightarrow> jsnum" where
  "Math_ceil (Num a) = Num (of_int \<lceil>a\<rceil>)"
| "Math_ceil NaN = NaN"

fun Math_floor :: "jsnum \<Rightarrow> jsnum" where
  "Math_floor (Num a) = Num (of_int \<lfloor>a\<rfloor>)"
| "Math_floor NaN = NaN"

fun Math_max :: "jsnum \<Rightarrow> jsnum \<Rightarrow> jsnum" where
  "Math_max (Num a) (Num b) = Num (max a b)"
| "Math_max _ _ = NaN"

fun Math_min :: "jsnum \<Rightarrow> jsnum \<Rightarrow> jsnum" where
  "Math_min (Num a) (Num b) = Num (min a b)"
| "Math_min _ _ = NaN"

text \<open>Every comparison with \<^verbatim>\<open>NaN\<close> is false.\<close>

fun js_lt :: "jsnum \<Rightarrow> jsnum \<Rightarrow> bool" where
  "js_lt (Num a) (Num b) = (a < b)"
| "js_lt _ _ = False"

fun js_le :: "jsnum \<Rightarrow> jsnum \<Rightarrow> bool" where
  "js_le (Num a) (Num b) = (a \<le> b)"
| "js_le _ _ = False"

definition js_gt :: "jsnum \<Rightarrow> jsnum \<Rightarrow> bool" where
  "js_gt a b = js_lt b a"

definition js_ge :: "jsnum \<Rightarrow> jsnum \<Rightarrow> bool" where
  "js_ge a b = js_le b a"

fun isNaN :: "jsnum \<Rightarrow> bool" where
  "isNaN NaN = True"
| "isNaN (Num a) = False"

subsection \<open>JavaScript strings\<close>

text \<open>
  A string is a list of code units. The model has the 8-bit units of \<^typ>\<open>char\<close>: case
  mapping is that of the letters A to Z, white space is the white space below 256.
\<close>

definition isSpace :: "char \<Rightarrow> bool" where
  "isSpace c = ((of_char c :: nat) \<in> {9, 10, 11, 12, 13, 32, 160})"

definition trim :: "string \<Rightarrow> string" where
  "trim s = rev (dropWhile isSpace (rev (dropWhile isSpace s)))"

definition lowerChar :: "char \<Rightarrow> char" where
  "lowerChar c = (let n = (of_char c :: nat) in if 65 \<le> n \<and> n \<le> 90 then char_of (n + 32) else c)"

definition toLowerCase :: "string \<Rightarrow> string" where
  "toLowerCase s = map lowerChar s"

text \<open>\<^verbatim>\<open>s.includes(q)\<close>: \<open>q\<close> occurs in \<open>s\<close> as a contiguous run.\<close>

fun str_includes :: "string \<Rightarrow> string \<Rightarrow> bool" where
  "str_includes [] q = (q = [])"
| "str_includes (c # cs) q = (prefix q (c # cs) \<or> str_includes cs q)"

text \<open>
  A property of an object that may be absent is a \<^typ>\<open>string option\<close>; \<open>None\<close> is
  \<^verbatim>\<open>undefined\<close>. The empty string and \<^verbatim>\<open>undefined\<close> are the falsy values.
\<close>

type_synonym jsobj = "string \<Rightarrow> string option"

fun truthy :: "string option \<Rightarrow> bool" where
  "truthy None = False"
| "truthy (Some s) = (s \<noteq> [])"

text \<open>\<^verbatim>\<open>v || d\<close> for an optional property and for a string.\<close>

fun orElse :: "string option \<Rightarrow> string \<Rightarrow> string" where
  "orElse None d = d"
| "orElse (Some s) d = (if s = [] then d else s)"

definition orStr :: "string \<Rightarrow> string \<Rightarrow> string" where
  "orStr s d = (if s = [] then d else s)"

text \<open>The value of a property that is known to be present.\<close>

fun val :: "string option \<Rightarrow> string" where
  "val None = []"
| "val (Some s) = s"

subsection \<open>The ingredient record and the host environment\<close>

record ingredient =
  ingId :: string
  name :: string
  category :: string
  purchaseDate :: string
  expirationDate :: string
  quantity :: string
  location :: string
  notes' :: string
  createdAt :: string
  updatedAt :: string

text \<open>
  The host: \<open>now\<close> is the clock in milliseconds since the epoch (one reading per call of a
  modelled function); \<open>tzOffset\<close> is the local zone, in milliseconds east of UTC, taken to be
  constant (as in Asia/Tokyo; daylight-saving changes are outside the model);
  \<open>parseDate s\<close> is the time value of \<^verbatim>\<open>new Date(s)\<close>, \<open>None\<close> for an Invalid Date;
  \<open>toISOString t\<close> is the ISO text of the instant \<open>t\<close>; \<open>mathRandom16 k\<close> is the value of
  the \<open>k\<close>-th \<^verbatim>\<open>Math.random() * 16 | 0\<close>; \<open>setItemOk xs\<close> says whether localStorage accepts
  the array \<open>xs\<close> (false when the quota is exceeded).
\<close>

record env =
  now :: int
  tzOffset :: int
  parseDate :: "string \<Rightarrow> int option"
  toISOString :: "int \<Rightarrow> string"
  mathRandom16 :: "nat \<Rightarrow> nat"
  setItemOk :: "ingredient list \<Rightarrow> bool"

subsection \<open>Dates\<close>

text \<open>A \<^verbatim>\<open>Date\<close> object is its time value; \<open>None\<close> is an Invalid Date.\<close>

type_synonym jsdate = "int option"

definition msPerDay :: int where
  "msPerDay = 1000 * 60 * 60 * 24"

definition newDateNow :: "env \<Rightarrow> jsdate" where
  "newDateNow env = Some (now env)"

definition newDate :: "env \<Rightarrow> string \<Rightarrow> jsdate" where
  "newDate env s = parseDate env s"


definition localMidnight :: "env \<Rightarrow> int \<Rightarrow> int" where
  "localMidnight env t = t - (t + tzOffset env) mod msPerDay"

definition setHours0 :: "env \<Rightarrow> jsdate \<Rightarrow> jsdate" where
  "setHours0 env d = map_option (localMidnight env) d"

fun getTime :: "jsdate \<Rightarrow> jsnum" where
  "getTime None = NaN"
| "getTime (Some t) = Num (of_int t)"

subsection \<open>dataModel.js: creation\<close>

definition hexDigit :: "nat \<Rightarrow> char" where
  "hexDigit v = ''0123456789abcdef'' ! (v mod 16)"

fun fillTemplate :: "string \<Rightarrow> (nat \<Rightarrow> nat) \<Rightarrow> nat \<Rightarrow> string" where
  "fillTemplate [] rnd k = []"
| "fillTemplate (c # cs) rnd k =
     (if c = CHR ''x'' \<or> c = CHR ''y'' then
        (let r = rnd k mod 16;
             v = (if c = CHR ''x'' then r else r mod 4 + 8)
         in hexDigit v # fillTemplate cs rnd (Suc k))
      else c # fillTemplate cs rnd k)"

definition generateUUID :: "env \<Rightarrow> string" where
  "generateUUID env = fillTemplate ''xxxxxxxx-xxxx-4xxx-yxxx-xxxxxxxxxxxx'' (mathRandom16 env) 0"

text \<open>\<^verbatim>\<open>today.toISOString().split('T')[0]\<close>\<close>

definition getTodayString :: "env \<Rightarrow> string" where
  "getTodayString env = takeWhile (\<lambda>c. c \<noteq> CHR ''T'') (toISOString env (now env))"

definition createIngredient :: "env \<Rightarrow> jsobj \<Rightarrow> ingredient" where
  "createIngredient env data =
     (let nowIso = toISOString env (now env) in
      \<lparr> ingId = generateUUID env,
        name = trim (orElse (data ''name'') []),
        category = orElse (data ''category'') [],
        purchaseDate = orElse (data ''purchaseDate'') (getTodayString env),
        expirationDate = orElse (data ''expirationDate'') [],
        quantity = trim (orElse (data ''quantity'') []),
        location = trim (orElse (data ''location'') []),
        notes' = trim (orElse (data ''notes'') []),
        createdAt = nowIso,
        updatedAt = nowIso \<rparr>)"

text \<open>An ingredient read as a plain object: every one of its ten properties is present.\<close>

definition asObject :: "ingredient \<Rightarrow> jsobj" where
  "asObject ing =
     [''id'' \<mapsto> ingId ing, ''name'' \<mapsto> name ing, ''category'' \<mapsto> category ing,
      ''purchaseDate'' \<mapsto> purchaseDate ing, ''expirationDate'' \<mapsto> expirationDate ing,
      ''quantity'' \<mapsto> quantity ing, ''location'' \<mapsto> location ing, ''notes'' \<mapsto> notes' ing,
      ''createdAt'' \<mapsto> createdAt ing, ''updatedAt'' \<mapsto> updatedAt ing]"

subsection \<open>dataModel.js: validation\<close>

text \<open>
  The messages of the source are Japanese texts; each is named here by what it says:
  \<open>NameRequired\<close> "enter a name", \<open>NameTooLong\<close> "at most 100 characters",
  \<open>CategoryRequired\<close> "choose a category", \<open>ExpirationRequired\<close> "enter the expiry date",
  \<open>InvalidDate\<close> "enter a valid date", \<open>PurchaseAfterExpiration\<close> "the purchase date must be
  before the expiry date".
\<close>

datatype message =
  NameRequired | NameTooLong | CategoryRequired | ExpirationRequired | InvalidDate
  | PurchaseAfterExpiration

record validation =
  valid :: bool
  errors :: "(string \<times> message) list"

text \<open>The four blocks of the function, each taking and returning the \<^verbatim>\<open>errors\<close> object.\<close>

definition checkName :: "jsobj \<Rightarrow> (string \<times> message) list \<Rightarrow> (string \<times> message) list" where
  "checkName data errs =
     (if \<not> truthy (data ''name'') \<or> length (trim (val (data ''name''))) = 0
      then AList.update ''name'' NameRequired errs
      else if length (trim (val (data ''name''))) > 100
      then AList.update ''name'' NameTooLong errs
      else errs)"

definition checkCategory :: "jsobj \<Rightarrow> (string \<times> message) list \<Rightarrow> (string \<times> message) list" where
  "checkCategory data errs =
     (if \<not> truthy (data ''category'') \<or> length (trim (val (data ''category''))) = 0
      then AList.update ''category'' CategoryRequired errs
      else errs)"

definition checkExpiration ::
  "env \<Rightarrow> jsobj \<Rightarrow> (string \<times> message) list \<Rightarrow> (string \<times> message) list" where
  "checkExpiration env data errs =
     (if \<not> truthy (data ''expirationDate'')
      then AList.update ''expirationDate'' ExpirationRequired errs
      else (let expDate = newDate env (val (data ''expirationDate'')) in
            if isNaN (getTime expDate)
            then AList.update ''expirationDate'' InvalidDate errs
            else errs))"

definition checkPurchase ::
  "env \<Rightarrow> jsobj \<Rightarrow> (string \<times> message) list \<Rightarrow> (string \<times> message) list" where
  "checkPurchase env data errs =
     (if truthy (data ''purchaseDate'') then
        (let purDate = newDate env (val (data ''purchaseDate''));
             errs1 = (if isNaN (getTime purDate)
                        then AList.update ''purchaseDate'' InvalidDate errs
                        else errs)
         in if truthy (data ''expirationDate'') then
              (let expDate = newDate env (val (data ''expirationDate'')) in
               if \<not> isNaN (getTime purDate) \<and> \<not> isNaN (getTime expDate)
                  \<and> js_gt (getTime purDate) (getTime expDate)
               then AList.update ''purchaseDate'' PurchaseAfterExpiration errs1
               else errs1)
            else errs1)
      else errs)"

definition validateIngredient :: "env \<Rightarrow> jsobj \<Rightarrow> validation" where
  "validateIngredient env data =
     (let errs = checkPurchase env data
                     (checkExpiration env data (checkCategory data (checkName data [])))
      in \<lparr> valid = (length (map fst errs) = 0), errors = errs \<rparr>)"

subsection \<open>dataModel.js: days remaining and status\<close>

datatype jsexn = Error string

text \<open>
  The body of the \<^verbatim>\<open>try\<close> block. No operation in it throws: \<^verbatim>\<open>new Date\<close> of an
  unparseable string is an Invalid Date, whose time value is \<^verbatim>\<open>NaN\<close>.
\<close>

definition calculateDaysRemaining_try :: "env \<Rightarrow> string \<Rightarrow> jsexn + jsnum" where
  "calculateDaysRemaining_try env expirationDateStr =
     (let today = setHours0 env (newDateNow env);
          expDate = setHours0 env (newDate env expirationDateStr);
          diffTime = js_sub (getTime expDate) (getTime today);
          diffDays = Math_ceil (js_div diffTime (Num (of_int msPerDay)))
      in Inr diffDays)"

definition calculateDaysRemaining :: "env \<Rightarrow> string \<Rightarrow> jsnum" where
  "calculateDaysRemaining env expirationDateStr =
     (case calculateDaysRemaining_try env expirationDateStr of
        Inr diffDays \<Rightarrow> diffDays
      | Inl err \<Rightarrow> Num 0)"

definition getExpirationStatus :: "env \<Rightarrow> ingredient \<Rightarrow> string" where
  "getExpirationStatus env ingredient =
     (let daysRemaining = calculateDaysRemaining env (expirationDate ingredient) in
      if js_lt daysRemaining (Num 0) then ''expired''
      else if js_le daysRemaining (Num 3) then ''critical''
      else if js_le daysRemaining (Num 7) then ''warning''
      else ''fresh'')"

subsection \<open>dataModel.js: sorting\<close>

text \<open>
  \<^verbatim>\<open>Array.prototype.sort\<close> with a comparison function. ECMAScript requires the sort to be
  stable; for a consistent comparison function the result is then determined, and
  insertion from the right computes it: each element goes in front of the first element
  of the sorted rest that it does not compare greater than.
\<close>

fun insertBy :: "('a \<Rightarrow> 'a \<Rightarrow> int) \<Rightarrow> 'a \<Rightarrow> 'a list \<Rightarrow> 'a list" where
  "insertBy cmp x [] = [x]"
| "insertBy cmp x (y # ys) = (if cmp x y \<le> 0 then x # y # ys else y # insertBy cmp x ys)"

definition Array_sort :: "('a \<Rightarrow> 'a \<Rightarrow> int) \<Rightarrow> 'a list \<Rightarrow> 'a list" where
  "Array_sort cmp xs = foldr (insertBy cmp) xs []"

text \<open>
  The values the comparison function compares: lower-cased strings, or numbers (the time
  value of a \<^verbatim>\<open>Date\<close>, a status rank). \<^verbatim>\<open><\<close> on two strings is the lexicographic order of
  their code units.
\<close>

datatype cmpval = CStr string | CNum jsnum

fun cmp_lt :: "cmpval \<Rightarrow> cmpval \<Rightarrow> bool" where
  "cmp_lt (CStr a) (CStr b) = (a < b)"
| "cmp_lt (CNum a) (CNum b) = js_lt a b"
| "cmp_lt _ _ = False"

text \<open>\<^verbatim>\<open>statusOrder[s]\<close>; a key that is not in the table gives \<^verbatim>\<open>undefined\<close>, which compares like \<^verbatim>\<open>NaN\<close>.\<close>

definition statusOrder :: "string \<Rightarrow> jsnum" where
  "statusOrder s =
     (if s = ''expired'' then Num 0 else if s = ''critical'' then Num 1
      else if s = ''warning'' then Num 2 else if s = ''fresh'' then Num 3 else NaN)"

text \<open>The \<^verbatim>\<open>switch\<close>: the pair \<^verbatim>\<open>(compareA, compareB)\<close>, or \<open>None\<close> in the \<^verbatim>\<open>default\<close> case.\<close>

definition compareValues :: "env \<Rightarrow> string \<Rightarrow> ingredient \<Rightarrow> ingredient \<Rightarrow> (cmpval \<times> cmpval) option" where
  "compareValues env sortBy a b =
     (if sortBy = ''name'' then
        Some (CStr (toLowerCase (name a)), CStr (toLowerCase (name b)))
      else if sortBy = ''expiration'' then
        Some (CNum (getTime (newDate env (expirationDate a))),
              CNum (getTime (newDate env (expirationDate b))))
      else if sortBy = ''status'' then
        Some (CNum (statusOrder (getExpirationStatus env a)),
              CNum (statusOrder (getExpirationStatus env b)))
      else if sortBy = ''category'' then
        Some (CStr (toLowerCase (category a)), CStr (toLowerCase (category b)))
      else if sortBy = ''purchase'' then
        Some (CNum (getTime (newDate env (orStr (purchaseDate a) ''1900-01-01''))),
              CNum (getTime (newDate env (orStr (purchaseDate b) ''1900-01-01''))))
      else None)"

definition compareFn :: "env \<Rightarrow> string \<Rightarrow> string \<Rightarrow> ingredient \<Rightarrow> ingredient \<Rightarrow> int" where
  "compareFn env sortBy order a b =
     (case compareValues env sortBy a b of
        None \<Rightarrow> 0
      | Some (compareA, compareB) \<Rightarrow>
          if cmp_lt compareA compareB then (if order = ''asc'' then - 1 else 1)
          else if cmp_lt compareB compareA then (if order = ''asc'' then 1 else - 1)
          else 0)"

definition sortIngredients :: "env \<Rightarrow> ingredient list \<Rightarrow> string \<Rightarrow> string \<Rightarrow> ingredient list" where
  "sortIngredients env ingredients sortBy order =
     (let sortedCopy = ingredients in Array_sort (compareFn env sortBy order) sortedCopy)"

subsection \<open>dataModel.js: filtering; search.js: searching\<close>

definition filterIngredients :: "env \<Rightarrow> ingredient list \<Rightarrow> jsobj \<Rightarrow> ingredient list" where
  "filterIngredients env ingredients filters =
     (let filtered0 = ingredients;
          filtered1 =
            (if truthy (filters ''search'') then
               (let query = trim (toLowerCase (val (filters ''search''))) in
                filter (\<lambda>ing.
                    str_includes (toLowerCase (name ing)) query
                  \<or> str_includes (toLowerCase (category ing)) query
                  \<or> (notes' ing \<noteq> [] \<and> str_includes (toLowerCase (notes' ing)) query))
                  filtered0)
             else filtered0);
          filtered2 =
            (if truthy (filters ''category'') \<and> val (filters ''category'') \<noteq> [] then
               filter (\<lambda>ing. category ing = val (filters ''category'')) filtered1
             else filtered1);
          filtered3 =
            (if truthy (filters ''status'') \<and> val (filters ''status'') \<noteq> [] then
               filter (\<lambda>ing. getExpirationStatus env ing = val (filters ''status'')) filtered2
             else filtered2);
          filtered4 =
            (if truthy (filters ''startDate'') then
               (let startDate = newDate env (val (filters ''startDate'')) in
                filter (\<lambda>ing. js_ge (getTime (newDate env (expirationDate ing))) (getTime startDate))
                  filtered3)
             else filtered3);
          filtered5 =
            (if truthy (filters ''endDate'') then
               (let endDate = newDate env (val (filters ''endDate'')) in
                filter (\<lambda>ing. js_le (getTime (newDate env (expirationDate ing))) (getTime endDate))
                  filtered4)
             else filtered4)
      in filtered5)"

definition searchIngredients :: "ingredient list \<Rightarrow> string option \<Rightarrow> ingredient list" where
  "searchIngredients ingredients query =
     (if \<not> truthy query \<or> length (trim (val query)) = 0 then ingredients
      else
        (let lowerQuery = trim (toLowerCase (val query)) in
         filter (\<lambda>ingredient.
             str_includes (toLowerCase (name ingredient)) lowerQuery
           \<or> str_includes (toLowerCase (category ingredient)) lowerQuery
           \<or> (notes' ingredient \<noteq> [] \<and> str_includes (toLowerCase (notes' ingredient)) lowerQuery)
           \<or> (location ingredient \<noteq> [] \<and> str_includes (toLowerCase (location ingredient)) lowerQuery))
           ingredients))"

subsection \<open>dataModel.js: statistics\<close>

text \<open>
  \<^verbatim>\<open>stats.byCategory\<close> is a plain object literal, so besides its own properties (an
  association list here) a read finds what it inherits from \<^verbatim>\<open>Object.prototype\<close>. The
  inherited values are functions (an object for \<^verbatim>\<open>__proto__\<close>): truthy, and \<^verbatim>\<open>NaN\<close> as
  numbers. An assignment creates an own property, except for \<^verbatim>\<open>__proto__\<close>, whose
  setter ignores a number.
\<close>

definition objectPrototypeKeys :: "string list" where
  "objectPrototypeKeys =
     [''constructor'', ''toString'', ''toLocaleString'', ''valueOf'', ''hasOwnProperty'',
      ''isPrototypeOf'', ''propertyIsEnumerable'', ''__proto__'', ''__defineGetter__'',
      ''__defineSetter__'', ''__lookupGetter__'', ''__lookupSetter__'']"

datatype jsval = Undefined | Inherited | Number jsnum

definition getProp :: "(string \<times> jsnum) list \<Rightarrow> string \<Rightarrow> jsval" where
  "getProp obj k =
     (case map_of obj k of
        Some v \<Rightarrow> Number v
      | None \<Rightarrow> if k \<in> set objectPrototypeKeys then Inherited else Undefined)"

definition setProp :: "(string \<times> jsnum) list \<Rightarrow> string \<Rightarrow> jsnum \<Rightarrow> (string \<times> jsnum) list" where
  "setProp obj k v = (if k = ''__proto__'' then obj else AList.update k v obj)"

fun falsy :: "jsval \<Rightarrow> bool" where
  "falsy Undefined = True"
| "falsy Inherited = False"
| "falsy (Number NaN) = True"
| "falsy (Number (Num a)) = (a = 0)"

fun toNumber :: "jsval \<Rightarrow> jsnum" where
  "toNumber Undefined = NaN"
| "toNumber Inherited = NaN"
| "toNumber (Number v) = v"

record stats =
  total :: nat
  expired :: nat
  critical :: nat
  warning :: nat
  fresh :: nat
  byCategory :: "(string \<times> jsnum) list"

text \<open>\<^verbatim>\<open>stats[status]++\<close>; \<open>status\<close> is one of the four names that \<^verbatim>\<open>getExpirationStatus\<close> returns.\<close>

definition bumpStatus :: "string \<Rightarrow> stats \<Rightarrow> stats" where
  "bumpStatus status st =
     (if status = ''expired'' then st\<lparr>expired := expired st + 1\<rparr>
      else if status = ''critical'' then st\<lparr>critical := critical st + 1\<rparr>
      else if status = ''warning'' then st\<lparr>warning := warning st + 1\<rparr>
      else if status = ''fresh'' then st\<lparr>fresh := fresh st + 1\<rparr>
      else st)"

definition bumpCategory :: "string \<Rightarrow> (string \<times> jsnum) list \<Rightarrow> (string \<times> jsnum) list" where
  "bumpCategory k obj =
     (let obj1 = (if falsy (getProp obj k) then setProp obj k (Num 0) else obj)
      in setProp obj1 k (js_add (toNumber (getProp obj1 k)) (Num 1)))"

text \<open>The body of the \<^verbatim>\<open>forEach\<close>.\<close>

definition statsStep :: "env \<Rightarrow> stats \<Rightarrow> ingredient \<Rightarrow> stats" where
  "statsStep env st ing =
     (let status = getExpirationStatus env ing;
          st1 = bumpStatus status st
      in st1\<lparr>byCategory := bumpCategory (category ing) (byCategory st1)\<rparr>)"

definition getIngredientStats :: "env \<Rightarrow> ingredient list \<Rightarrow> stats" where
  "getIngredientStats env ingredients =
     fold (\<lambda>ing st. statsStep env st ing) ingredients
       \<lparr> total = length ingredients, expired = 0, critical = 0, warning = 0, fresh = 0,
         byCategory = [] \<rparr>"

subsection \<open>ganttChart.js: the bar of an ingredient on the timeline\<close>

definition TIMELINE_DAYS :: rat where
  "TIMELINE_DAYS = 90"

record barPosition =
  left :: jsnum
  width :: jsnum
  visible :: bool
  daysFromToday :: jsnum
  duration :: jsnum

text \<open>The function for a window of \<open>windowDays\<close> days; the source fixes the window to \<open>TIMELINE_DAYS\<close>.\<close>

definition calculateBarPositionIn :: "rat \<Rightarrow> env \<Rightarrow> ingredient \<Rightarrow> barPosition" where
  "calculateBarPositionIn windowDays env ingredient =
     (let today = setHours0 env (newDateNow env);
          purchase = setHours0 env
            (if purchaseDate ingredient \<noteq> [] then newDate env (purchaseDate ingredient) else today);
          expiration = setHours0 env (newDate env (expirationDate ingredient));
          days = Math_floor (js_div (js_sub (getTime purchase) (getTime today)) (Num (of_int msPerDay)));
          leftPercent = Math_max (Num 0) (js_mul (js_div days (Num windowDays)) (Num 100));
          dur = Math_floor (js_div (js_sub (getTime expiration) (getTime purchase)) (Num (of_int msPerDay)));
          widthPercent = js_mul (js_div dur (Num windowDays)) (Num 100);
          expirationDaysFromToday =
            Math_floor (js_div (js_sub (getTime expiration) (getTime today)) (Num (of_int msPerDay)));
          vis = (js_ge expirationDaysFromToday (Num 0) \<and> js_lt days (Num windowDays))
      in \<lparr> left = Math_min leftPercent (Num 100),
           width = Math_max (Num 0) (Math_min widthPercent (js_sub (Num 100) leftPercent)),
           visible = vis,
           daysFromToday = days,
           duration = dur \<rparr>)"

definition calculateBarPosition :: "env \<Rightarrow> ingredient \<Rightarrow> barPosition" where
  "calculateBarPosition env ingredient = calculateBarPositionIn TIMELINE_DAYS env ingredient"

subsection \<open>storage.js: the localStorage variant\<close>

text \<open>
  The item stored under \<^verbatim>\<open>STORAGE_KEY\<close> is the JSON text of an array of ingredients, or is
  absent; it is modelled by the array it encodes, \<open>None\<close> when absent.
\<close>

type_synonym localStorage = "ingredient list option"

fun loadIngredients :: "localStorage \<Rightarrow> ingredient list" where
  "loadIngredients None = []"
| "loadIngredients (Some ingredients) = ingredients"

text \<open>\<^verbatim>\<open>setItem\<close> throws when the quota is exceeded; the \<^verbatim>\<open>catch\<close> then returns false.\<close>

definition saveIngredients :: "env \<Rightarrow> ingredient list \<Rightarrow> localStorage \<Rightarrow> bool \<times> localStorage" where
  "saveIngredients env ingredients store =
     (if setItemOk env ingredients then (True, Some ingredients) else (False, store))"

text \<open>\<^verbatim>\<open>xs.findIndex(p)\<close>: the index of the first element that satisfies \<open>p\<close>, or -1.\<close>

fun findIndex :: "('a \<Rightarrow> bool) \<Rightarrow> 'a list \<Rightarrow> int" where
  "findIndex p [] = - 1"
| "findIndex p (x # xs) =
     (if p x then 0 else (let i = findIndex p xs in if i = - 1 then - 1 else i + 1))"

text \<open>
  \<^verbatim>\<open>{...ingredient, ...updates}\<close>: every property that \<open>updates\<close> has replaces the
  ingredient's. (Properties of \<open>updates\<close> outside the ten of an ingredient are not kept.)
\<close>

definition spread :: "ingredient \<Rightarrow> jsobj \<Rightarrow> ingredient" where
  "spread ing updates =
     \<lparr> ingId = (case updates ''id'' of Some v \<Rightarrow> v | None \<Rightarrow> ingId ing),
       name = (case updates ''name'' of Some v \<Rightarrow> v | None \<Rightarrow> name ing),
       category = (case updates ''category'' of Some v \<Rightarrow> v | None \<Rightarrow> category ing),
       purchaseDate = (case updates ''purchaseDate'' of Some v \<Rightarrow> v | None \<Rightarrow> purchaseDate ing),
       expirationDate = (case updates ''expirationDate'' of Some v \<Rightarrow> v | None \<Rightarrow> expirationDate ing),
       quantity = (case updates ''quantity'' of Some v \<Rightarrow> v | None \<Rightarrow> quantity ing),
       location = (case updates ''location'' of Some v \<Rightarrow> v | None \<Rightarrow> location ing),
       notes' = (case updates ''notes'' of Some v \<Rightarrow> v | None \<Rightarrow> notes' ing),
       createdAt = (case updates ''createdAt'' of Some v \<Rightarrow> v | None \<Rightarrow> createdAt ing),
       updatedAt = (case updates ''updatedAt'' of Some v \<Rightarrow> v | None \<Rightarrow> updatedAt ing) \<rparr>"

definition updateIngredient_try ::
  "env \<Rightarrow> string \<Rightarrow> jsobj \<Rightarrow> localStorage \<Rightarrow> jsexn + (bool \<times> localStorage)" where
  "updateIngredient_try env ident updates store =
     (let ingredients = loadIngredients store;
          index = findIndex (\<lambda>ing. ingId ing = ident) ingredients
      in if index = - 1 then Inl (Error ''Ingredient not found'')
         else
           Inr (saveIngredients env
                  (ingredients[nat index :=
                     (spread (ingredients ! nat index) updates)
                       \<lparr> ingId := ingId (ingredients ! nat index),
                         updatedAt := toISOString env (now env) \<rparr>])
                  store))"

definition updateIngredient :: "env \<Rightarrow> string \<Rightarrow> jsobj \<Rightarrow> localStorage \<Rightarrow> bool \<times> localStorage" where
  "updateIngredient env ident updates store =
     (case updateIngredient_try env ident updates store of
        Inr result \<Rightarrow> result
      | Inl err \<Rightarrow> (False, store))"

subsection \<open>Notions used in the statements\<close>

text \<open>The purchase-date message that the rules of validation call for, if any.\<close>

definition purchaseMessage :: "env \<Rightarrow> jsobj \<Rightarrow> message option" where
  "purchaseMessage env data =
     (if \<not> truthy (data ''purchaseDate'') then None
      else case parseDate env (val (data ''purchaseDate'')) of
             None \<Rightarrow> Some InvalidDate
           | Some p \<Rightarrow>
               (if \<not> truthy (data ''expirationDate'') then None
                else case parseDate env (val (data ''expirationDate'')) of
                       None \<Rightarrow> None
                     | Some e \<Rightarrow> if e < p then Some PurchaseAfterExpiration else None))"

text \<open>
  The order that the sort is to realise, stated apart from the comparison function of the
  source. \<open>orderKey\<close> is the key of a record under a sort field, in one linearly ordered
  type (pairs, compared lexicographically): the lower-cased text for \<open>name\<close> and
  \<open>category\<close>, the time value of the date for \<open>expiration\<close> and \<open>purchase\<close> (an absent
  purchase date counts as 1 January 1900), the severity rank for \<open>status\<close> with
  expired < critical < warning < fresh. \<open>compareBy key asc\<close> is the three-way comparison
  by such a key, reversed when \<open>asc\<close> is false.
\<close>

definition compareBy :: "('a \<Rightarrow> 'k::linorder) \<Rightarrow> bool \<Rightarrow> 'a \<Rightarrow> 'a \<Rightarrow> int" where
  "compareBy key asc a b =
     (if key a < key b then (if asc then - 1 else 1)
      else if key b < key a then (if asc then 1 else - 1)
      else 0)"

definition statusRank :: "string \<Rightarrow> int" where
  "statusRank s =
     (if s = ''expired'' then 0 else if s = ''critical'' then 1
      else if s = ''warning'' then 2 else 3)"

definition orderKey :: "env \<Rightarrow> string \<Rightarrow> ingredient \<Rightarrow> int \<times> string" where
  "orderKey env sortBy a =
     (if sortBy = ''name'' then (0, toLowerCase (name a))
      else if sortBy = ''category'' then (0, toLowerCase (category a))
      else if sortBy = ''expiration'' then
        (case parseDate env (expirationDate a) of Some t \<Rightarrow> t | None \<Rightarrow> 0, [])
      else if sortBy = ''purchase'' then
        (case parseDate env (orStr (purchaseDate a) ''1900-01-01'') of Some t \<Rightarrow> t | None \<Rightarrow> 0, [])
      else if sortBy = ''status'' then (statusRank (getExpirationStatus env a), [])
      else (0, []))"

text \<open>
  The sum of the values of \<^verbatim>\<open>byCategory\<close>, and the objects whose own properties are all
  positive counts.
\<close>

definition sumValues :: "(string \<times> jsnum) list \<Rightarrow> jsnum" where
  "sumValues obj = foldr js_add (map snd obj) (Num 0)"

definition counts :: "(string \<times> jsnum) list \<Rightarrow> bool" where
  "counts obj = (\<forall>p \<in> set obj. \<exists>n. snd p = Num (of_nat (Suc n)))"

subsection \<open>Sample hosts and records\<close>

text \<open>
  A date-only ISO string denotes midnight UTC of that day. The sample hosts parse the
  strings of this table (day number since 1 January 1970, times the milliseconds of a
  day) and nothing else.
\<close>

definition utcMidnights :: "(string \<times> int) list" where
  "utcMidnights =
     [(''1900-01-01'', - 25567 * 86400000),
      (''2020-01-01'', 18262 * 86400000),
      (''2025-01-01'', 20089 * 86400000),
      (''2025-01-04'', 20092 * 86400000),
      (''2025-01-05'', 20093 * 86400000),
      (''2025-01-08'', 20096 * 86400000),
      (''2025-01-09'', 20097 * 86400000),
      (''2025-01-11'', 20099 * 86400000),
      (''2025-01-12'', 20100 * 86400000),
      (''2025-01-13'', 20101 * 86400000),
      (''2025-04-15'', 20193 * 86400000)]"

text \<open>Noon of 5 January 2025 in a zone nine hours east of UTC (03:00 UTC).\<close>

definition hostTokyo :: env where
  "hostTokyo =
     \<lparr> now = 20093 * 86400000 + 3 * 3600000,
       tzOffset = 9 * 3600000,
       parseDate = map_of utcMidnights,
       toISOString = (\<lambda>t. ''2025-01-05T03:00:00.000Z''),
       mathRandom16 = (\<lambda>k. k mod 16),
       setItemOk = (\<lambda>xs. True) \<rparr>"



text \<open>The host of \<open>hostTokyo\<close> with its storage full.\<close>

definition hostFull :: env where
  "hostFull = hostTokyo \<lparr> setItemOk := (\<lambda>xs. False) \<rparr>"

text \<open>
  Stored ingredients: milk; a second carton with the same name up to case and another
  id; tea; and a cheese whose category is the name of an inherited property.
\<close>

definition milk :: ingredient where
  "milk =
     \<lparr> ingId = ''a1'', name = ''Milk'', category = ''Dairy'', purchaseDate = ''2025-01-05'',
       expirationDate = ''2025-01-08'', quantity = ''1'', location = ''Fridge'', notes' = [],
       createdAt = ''2025-01-05T03:00:00.000Z'', updatedAt = ''2025-01-05T03:00:00.000Z'' \<rparr>"

definition milk2 :: ingredient where
  "milk2 = milk \<lparr> ingId := ''a2'', name := ''MILK'' \<rparr>"

definition tea :: ingredient where
  "tea =
     \<lparr> ingId = ''b2'', name = ''Green Tea'', category = ''Drinks'', purchaseDate = ''2025-01-01'',
       expirationDate = ''2025-04-15'', quantity = ''2'', location = ''Shelf'', notes' = ''gift'',
       createdAt = ''2025-01-01T00:00:00.000Z'', updatedAt = ''2025-01-01T00:00:00.000Z'' \<rparr>"

definition cheese :: ingredient where
  "cheese = milk \<lparr> ingId := ''c3'', name := ''Cheese'', category := ''constructor'' \<rparr>"

text \<open>A record whose expiration date does not parse.\<close>

definition stale :: ingredient where
  "stale = milk \<lparr> ingId := ''d4'', name := ''Stale'', expirationDate := ''soon'' \<rparr>"

text \<open>Form data: a valid entry, one whose expiry date is long past, and a bad one.\<close>

definition newMilk :: jsobj where
  "newMilk =
     [''name'' \<mapsto> '' Milk '', ''category'' \<mapsto> ''Dairy'', ''expirationDate'' \<mapsto> ''2025-01-08'']"

definition oldMilk :: jsobj where
  "oldMilk =
     [''name'' \<mapsto> '' Milk '', ''category'' \<mapsto> ''Dairy'', ''expirationDate'' \<mapsto> ''2020-01-01'']"

definition badForm :: jsobj where
  "badForm =
     [''name'' \<mapsto> ''   '', ''expirationDate'' \<mapsto> ''soon'', ''purchaseDate'' \<mapsto> ''2025-01-08'']"

text \<open>An update that tries to replace the id and the creation time.\<close>

definition tamper :: jsobj where
  "tamper =
     [''id'' \<mapsto> ''zz'', ''name'' \<mapsto> ''Soy Milk'', ''createdAt'' \<mapsto> ''1999-12-31T00:00:00.000Z'']"

text \<open>Two filter settings: a search with spaces around it, and a search for a storage place.\<close>

definition searchMilk :: jsobj where
  "searchMilk = [''search'' \<mapsto> '' MILK '']"

definition searchFridge :: jsobj where
  "searchFridge = [''search'' \<mapsto> ''fridge'', ''category'' \<mapsto> []]"

section \<open>Properties\<close>

subsection \<open>Whole days between local midnights\<close>








lemma calculateDaysRemaining_unparsed:
  "parseDate env s = None \<Longrightarrow> calculateDaysRemaining env s = NaN"
  by (simp add: calculateDaysRemaining_def calculateDaysRemaining_try_def newDate_def newDateNow_def
        setHours0_def)

lemma status_of_days:
  "calculateDaysRemaining env (expirationDate ing) = Num (of_int d) \<Longrightarrow>
   getExpirationStatus env ing =
     (if d < 0 then ''expired'' else if d \<le> 3 then ''critical''
      else if d \<le> 7 then ''warning'' else ''fresh'')"
  by (simp add: getExpirationStatus_def)

lemma status_of_NaN:
  "calculateDaysRemaining env (expirationDate ing) = NaN \<Longrightarrow> getExpirationStatus env ing = ''fresh''"
  by (simp add: getExpirationStatus_def)

subsection \<open>Status buckets\<close>

text \<open>
  C1. Whenever the day count of an ingredient is the integer \<open>d\<close>, its status is
  \<open>expired\<close> exactly for \<open>d < 0\<close>, \<open>critical\<close> exactly for \<open>0 \<le> d \<le> 3\<close>, \<open>warning\<close>
  exactly for \<open>4 \<le> d \<le> 7\<close> and \<open>fresh\<close> exactly for \<open>8 \<le> d\<close>: one of the four names,
  and only one.
\<close>

theorem status_buckets:
  assumes "calculateDaysRemaining env (expirationDate ing) = Num (of_int d)"
  shows "(getExpirationStatus env ing = ''expired'' \<longleftrightarrow> d < 0)
       \<and> (getExpirationStatus env ing = ''critical'' \<longleftrightarrow> 0 \<le> d \<and> d \<le> 3)
       \<and> (getExpirationStatus env ing = ''warning'' \<longleftrightarrow> 4 \<le> d \<and> d \<le> 7)
       \<and> (getExpirationStatus env ing = ''fresh'' \<longleftrightarrow> 8 \<le> d)
       \<and> getExpirationStatus env ing \<in> {''expired'', ''critical'', ''warning'', ''fresh''}"
  by (simp add: status_of_days [OF assms])

text \<open>The boundaries: -1, 0, 3, 4, 7 and 8 days after 5 January 2025.\<close>

theorem status_buckets_witness:
  "getExpirationStatus hostTokyo (milk\<lparr>expirationDate := ''2025-01-04''\<rparr>) = ''expired''
 \<and> getExpirationStatus hostTokyo (milk\<lparr>expirationDate := ''2025-01-05''\<rparr>) = ''critical''
 \<and> getExpirationStatus hostTokyo (milk\<lparr>expirationDate := ''2025-01-08''\<rparr>) = ''critical''
 \<and> getExpirationStatus hostTokyo (milk\<lparr>expirationDate := ''2025-01-09''\<rparr>) = ''warning''
 \<and> getExpirationStatus hostTokyo (milk\<lparr>expirationDate := ''2025-01-12''\<rparr>) = ''warning''
 \<and> getExpirationStatus hostTokyo (milk\<lparr>expirationDate := ''2025-01-13''\<rparr>) = ''fresh''"
proof -
  have a: "calculateDaysRemaining hostTokyo (expirationDate (milk\<lparr>expirationDate := ''2025-01-04''\<rparr>)) = Num (of_int (- 1))"
    by code_simp
  have b: "calculateDaysRemaining hostTokyo (expirationDate (milk\<lparr>expirationDate := ''2025-01-05''\<rparr>)) = Num (of_int 0)"
    by code_simp
  have c: "calculateDaysRemaining hostTokyo (expirationDate (milk\<lparr>expirationDate := ''2025-01-08''\<rparr>)) = Num (of_int 3)"
    by code_simp
  have d: "calculateDaysRemaining hostTokyo (expirationDate (milk\<lparr>expirationDate := ''2025-01-09''\<rparr>)) = Num (of_int 4)"
    by code_simp
  have e: "calculateDaysRemaining hostTokyo (expirationDate (milk\<lparr>expirationDate := ''2025-01-12''\<rparr>)) = Num (of_int 7)"
    by code_simp
  have f: "calculateDaysRemaining hostTokyo (expirationDate (milk\<lparr>expirationDate := ''2025-01-13''\<rparr>)) = Num (of_int 8)"
    by code_simp
  show ?thesis
    using status_buckets [OF a] status_buckets [OF b] status_buckets [OF c]
      status_buckets [OF d] status_buckets [OF e] status_buckets [OF f]
    by simp
qed

subsection \<open>Days remaining\<close>





text \<open>
  C9. What the code does for an expiration string that does not parse: nothing throws, so
  the \<^verbatim>\<open>catch\<close> that would return 0 is never entered; \<open>calculateDaysRemaining\<close> returns
  \<^verbatim>\<open>NaN\<close>, the status is \<open>fresh\<close>, and the bar has width \<^verbatim>\<open>NaN\<close> and is not visible.
\<close>

theorem unparseable_expiration:
  assumes "parseDate env (expirationDate ing) = None"
  shows "calculateDaysRemaining env (expirationDate ing) = NaN
       \<and> calculateDaysRemaining env (expirationDate ing) \<noteq> Num 0
       \<and> getExpirationStatus env ing = ''fresh''
       \<and> width (calculateBarPositionIn w env ing) = NaN
       \<and> \<not> visible (calculateBarPositionIn w env ing)"
proof -
  have d: "calculateDaysRemaining env (expirationDate ing) = NaN"
    by (rule calculateDaysRemaining_unparsed [OF assms])
  have b: "width (calculateBarPositionIn w env ing) = NaN \<and> \<not> visible (calculateBarPositionIn w env ing)"
    using assms by (simp add: calculateBarPositionIn_def Let_def newDate_def setHours0_def js_ge_def)
  show ?thesis
    using d b status_of_NaN [OF d] by simp
qed

theorem unparseable_expiration_witness:
  "calculateDaysRemaining hostTokyo ''not-a-date'' = NaN
   \<and> getExpirationStatus hostTokyo (milk\<lparr>expirationDate := ''not-a-date''\<rparr>) = ''fresh''
   \<and> \<not> visible (calculateBarPosition hostTokyo (milk\<lparr>expirationDate := ''not-a-date''\<rparr>))"
proof -
  have p: "parseDate hostTokyo (expirationDate (milk\<lparr>expirationDate := ''not-a-date''\<rparr>)) = None"
    by code_simp
  show ?thesis
    using unparseable_expiration [OF p, of TIMELINE_DAYS] by (simp add: calculateBarPosition_def)
qed

subsection \<open>Validation\<close>

lemma map_of_checkName:
  "map_of (checkName data errs) =
     (if \<not> truthy (data ''name'') \<or> trim (val (data ''name'')) = []
      then (map_of errs)(''name'' \<mapsto> NameRequired)
      else if 100 < length (trim (val (data ''name'')))
      then (map_of errs)(''name'' \<mapsto> NameTooLong)
      else map_of errs)"
  by (simp add: checkName_def update_conv')

lemma map_of_checkCategory:
  "map_of (checkCategory data errs) =
     (if \<not> truthy (data ''category'') \<or> trim (val (data ''category'')) = []
      then (map_of errs)(''category'' \<mapsto> CategoryRequired)
      else map_of errs)"
  by (simp add: checkCategory_def update_conv')

lemma map_of_checkExpiration:
  "map_of (checkExpiration env data errs) =
     (if \<not> truthy (data ''expirationDate'')
      then (map_of errs)(''expirationDate'' \<mapsto> ExpirationRequired)
      else if parseDate env (val (data ''expirationDate'')) = None
      then (map_of errs)(''expirationDate'' \<mapsto> InvalidDate)
      else map_of errs)"
  by (cases "parseDate env (val (data ''expirationDate''))")
     (simp_all add: checkExpiration_def update_conv' newDate_def)

lemma map_of_checkPurchase:
  "map_of (checkPurchase env data errs) =
     (case purchaseMessage env data of None \<Rightarrow> map_of errs
      | Some m \<Rightarrow> (map_of errs)(''purchaseDate'' \<mapsto> m))"
  by (cases "parseDate env (val (data ''purchaseDate''))";
      cases "parseDate env (val (data ''expirationDate''))")
     (simp_all add: checkPurchase_def purchaseMessage_def update_conv' newDate_def js_gt_def Let_def)

text \<open>
  C8. \<open>validateIngredient\<close> reports \<open>valid\<close> exactly when \<open>errors\<close> is empty, and
  \<open>errors\<close> holds, under the name of the field, exactly the messages the rules call for:
  for \<open>name\<close> when it is absent or empty, empty after trimming, or longer than 100
  characters after trimming; for \<open>category\<close> when it is absent or empty after trimming; for
  \<open>expirationDate\<close> when it is absent or does not parse; for \<open>purchaseDate\<close> when it is
  present and does not parse, or when it and the expiration date both parse and it is the
  later of the two. No other key occurs.
\<close>

theorem validation_rules:
  "(valid (validateIngredient env data) \<longleftrightarrow> errors (validateIngredient env data) = [])
 \<and> map_of (errors (validateIngredient env data)) ''name'' =
       (if \<not> truthy (data ''name'') \<or> trim (val (data ''name'')) = [] then Some NameRequired
        else if 100 < length (trim (val (data ''name''))) then Some NameTooLong
        else None)
 \<and> map_of (errors (validateIngredient env data)) ''category'' =
       (if \<not> truthy (data ''category'') \<or> trim (val (data ''category'')) = []
        then Some CategoryRequired else None)
 \<and> map_of (errors (validateIngredient env data)) ''expirationDate'' =
       (if \<not> truthy (data ''expirationDate'') then Some ExpirationRequired
        else if parseDate env (val (data ''expirationDate'')) = None then Some InvalidDate
        else None)
 \<and> map_of (errors (validateIngredient env data)) ''purchaseDate'' =
       (if \<not> truthy (data ''purchaseDate'') then None
        else case parseDate env (val (data ''purchaseDate'')) of
               None \<Rightarrow> Some InvalidDate
             | Some p \<Rightarrow>
                 (if \<not> truthy (data ''expirationDate'') then None
                  else case parseDate env (val (data ''expirationDate'')) of
                         None \<Rightarrow> None
                       | Some e \<Rightarrow> if e < p then Some PurchaseAfterExpiration else None))
 \<and> fst ` set (errors (validateIngredient env data))
       \<subseteq> {''name'', ''category'', ''expirationDate'', ''purchaseDate''}"
proof -
  let ?errs = "checkPurchase env data (checkExpiration env data (checkCategory data (checkName data [])))"
  have e: "errors (validateIngredient env data) = ?errs"
    by (simp add: validateIngredient_def Let_def)
  have v: "valid (validateIngredient env data) \<longleftrightarrow> ?errs = []"
    by (simp add: validateIngredient_def Let_def)
  have m: "map_of ?errs =
             (case purchaseMessage env data of
                None \<Rightarrow> map_of (checkExpiration env data (checkCategory data (checkName data [])))
              | Some m \<Rightarrow> (map_of (checkExpiration env data (checkCategory data (checkName data []))))
                              (''purchaseDate'' \<mapsto> m))"
    by (rule map_of_checkPurchase)
  have n: "map_of ?errs ''name'' =
       (if \<not> truthy (data ''name'') \<or> trim (val (data ''name'')) = [] then Some NameRequired
        else if 100 < length (trim (val (data ''name''))) then Some NameTooLong
        else None)"
    by (simp add: m map_of_checkExpiration map_of_checkCategory map_of_checkName split: option.split)
  have c: "map_of ?errs ''category'' =
       (if \<not> truthy (data ''category'') \<or> trim (val (data ''category'')) = []
        then Some CategoryRequired else None)"
    by (simp add: m map_of_checkExpiration map_of_checkCategory map_of_checkName split: option.split)
  have x: "map_of ?errs ''expirationDate'' =
       (if \<not> truthy (data ''expirationDate'') then Some ExpirationRequired
        else if parseDate env (val (data ''expirationDate'')) = None then Some InvalidDate
        else None)"
    by (simp add: m map_of_checkExpiration map_of_checkCategory map_of_checkName split: option.split)
  have p: "map_of ?errs ''purchaseDate'' = purchaseMessage env data"
    by (simp add: m map_of_checkExpiration map_of_checkCategory map_of_checkName split: option.split)
  have "dom (map_of ?errs) \<subseteq> {''name'', ''category'', ''expirationDate'', ''purchaseDate''}"
    by (auto simp: m map_of_checkExpiration map_of_checkCategory map_of_checkName
          split: option.splits if_splits)
  then have d: "fst ` set ?errs \<subseteq> {''name'', ''category'', ''expirationDate'', ''purchaseDate''}"
    by (simp add: dom_map_of_conv_image_fst)
  show ?thesis
    unfolding e using v n c x p d by (simp add: purchaseMessage_def)
qed

theorem validation_rules_witness:
  "valid (validateIngredient hostTokyo newMilk)
 \<and> errors (validateIngredient hostTokyo newMilk) = []
 \<and> \<not> valid (validateIngredient hostTokyo badForm)
 \<and> map_of (errors (validateIngredient hostTokyo badForm)) ''name'' = Some NameRequired
 \<and> map_of (errors (validateIngredient hostTokyo badForm)) ''category'' = Some CategoryRequired
 \<and> map_of (errors (validateIngredient hostTokyo badForm)) ''expirationDate'' = Some InvalidDate
 \<and> map_of (errors (validateIngredient hostTokyo badForm)) ''purchaseDate'' = None"
proof -
  have a: "errors (validateIngredient hostTokyo newMilk) = []"
    by code_simp
  have b: "errors (validateIngredient hostTokyo badForm) \<noteq> []"
    by code_simp
  have t: "truthy (badForm ''name'') \<and> trim (val (badForm ''name'')) = []
         \<and> \<not> truthy (badForm ''category'') \<and> truthy (badForm ''expirationDate'')
         \<and> parseDate hostTokyo (val (badForm ''expirationDate'')) = None
         \<and> truthy (badForm ''purchaseDate'')
         \<and> parseDate hostTokyo (val (badForm ''purchaseDate'')) = Some (20096 * 86400000)"
    by code_simp
  show ?thesis
    using validation_rules [of hostTokyo newMilk] validation_rules [of hostTokyo badForm] a b t
    by simp
qed

subsection \<open>create then validate\<close>

lemma dropWhile_self: "xs = [] \<or> \<not> P (hd xs) \<Longrightarrow> dropWhile P xs = xs"
  by (cases xs) auto

lemma trim_trim: "trim (trim s) = trim s"
proof -
  define u where "u = dropWhile isSpace s"
  define v where "v = dropWhile isSpace (rev u)"
  have t: "trim s = rev v"
    by (simp add: trim_def u_def v_def)
  have "dropWhile isSpace (rev v) = rev v"
  proof (cases "v = []")
    case True
    then show ?thesis by simp
  next
    case False
    have "rev u = takeWhile isSpace (rev u) @ v"
      by (simp add: v_def)
    then have "u = rev v @ rev (takeWhile isSpace (rev u))"
      by (metis rev_append rev_rev_ident)
    then have h: "hd u = hd (rev v)"
      using False by (metis hd_append2 rev_is_Nil_conv)
    have "u \<noteq> []"
      using False v_def by auto
    then have "\<not> isSpace (hd u)"
      unfolding u_def by (rule hd_dropWhile)
    then show ?thesis
      using h by (simp add: dropWhile_self)
  qed
  then have "trim (rev v) = rev (dropWhile isSpace v)"
    by (simp add: trim_def)
  also have "\<dots> = rev v"
    by (simp add: v_def)
  finally show ?thesis
    by (simp add: t)
qed

lemma trim_nonempty: "trim s \<noteq> [] \<Longrightarrow> s \<noteq> []"
  by (auto simp: trim_def)

lemma asObject_fields:
  "asObject ing ''name'' = Some (name ing)"
  "asObject ing ''category'' = Some (category ing)"
  "asObject ing ''expirationDate'' = Some (expirationDate ing)"
  "asObject ing ''purchaseDate'' = Some (purchaseDate ing)"
  by (simp_all add: asObject_def)

lemma createIngredient_fields:
  "name (createIngredient env data) = trim (orElse (data ''name'') [])"
  "category (createIngredient env data) = orElse (data ''category'') []"
  "expirationDate (createIngredient env data) = orElse (data ''expirationDate'') []"
  "purchaseDate (createIngredient env data) = orElse (data ''purchaseDate'') (getTodayString env)"
  by (simp_all add: createIngredient_def Let_def)

text \<open>
  C3, as amended. If the data satisfy the rules (name non-empty after trimming and at most
  100 characters, category non-empty after trimming, expiration date present and
  parseable, purchase date, when present, parseable and not later than the expiration
  date) and, when the purchase date is absent, today's date string parses to a date that
  is not later than the expiration date, then the created ingredient validates.
\<close>

theorem validate_create:
  assumes "data ''name'' = Some n" and "trim n \<noteq> []" and "length (trim n) \<le> 100"
    and "data ''category'' = Some c" and "trim c \<noteq> []"
    and "data ''expirationDate'' = Some x" and "x \<noteq> []" and "parseDate env x = Some e"
    and "truthy (data ''purchaseDate'') \<longrightarrow>
           (\<exists>p. parseDate env (val (data ''purchaseDate'')) = Some p \<and> p \<le> e)"
    and "\<not> truthy (data ''purchaseDate'') \<longrightarrow>
           (\<exists>t. parseDate env (getTodayString env) = Some t \<and> t \<le> e)"
  shows "valid (validateIngredient env (asObject (createIngredient env data)))
       \<and> errors (validateIngredient env (asObject (createIngredient env data))) = []"
proof -
  let ?obj = "asObject (createIngredient env data)"
  have n: "checkName ?obj [] = []"
    using assms(1-3) trim_nonempty [of n]
    by (simp add: checkName_def asObject_fields createIngredient_fields trim_trim)
  have c: "checkCategory ?obj [] = []"
    using assms(4,5) trim_nonempty [of c]
    by (simp add: checkCategory_def asObject_fields createIngredient_fields)
  have x: "checkExpiration env ?obj [] = []"
    using assms(6-8)
    by (simp add: checkExpiration_def asObject_fields createIngredient_fields newDate_def)
  have p: "checkPurchase env ?obj [] = []"
  proof (cases "truthy (data ''purchaseDate'')")
    case True
    then obtain p where "parseDate env (val (data ''purchaseDate'')) = Some p" "p \<le> e"
      using assms(9) by blast
    moreover have "orElse (data ''purchaseDate'') (getTodayString env) = val (data ''purchaseDate'')"
      using True by (cases "data ''purchaseDate''") auto
    ultimately show ?thesis
      using assms(6-8)
      by (simp add: checkPurchase_def asObject_fields createIngredient_fields newDate_def js_gt_def)
  next
    case False
    then obtain t where "parseDate env (getTodayString env) = Some t" "t \<le> e"
      using assms(10) by blast
    moreover have "orElse (data ''purchaseDate'') (getTodayString env) = getTodayString env"
      using False by (cases "data ''purchaseDate''") auto
    ultimately show ?thesis
      using assms(6-8)
      by (simp add: checkPurchase_def asObject_fields createIngredient_fields newDate_def js_gt_def)
  qed
  show ?thesis
    by (simp add: validateIngredient_def Let_def n c x p)
qed

theorem validate_create_witness:
  "valid (validateIngredient hostTokyo (asObject (createIngredient hostTokyo newMilk)))"
proof -
  have a: "newMilk ''name'' = Some '' Milk ''" "trim '' Milk '' \<noteq> []" "length (trim '' Milk '') \<le> 100"
    "newMilk ''category'' = Some ''Dairy''" "trim ''Dairy'' \<noteq> []"
    "newMilk ''expirationDate'' = Some ''2025-01-08''" "''2025-01-08'' \<noteq> []"
    "parseDate hostTokyo ''2025-01-08'' = Some (20096 * 86400000)"
    by code_simp+
  have b: "truthy (newMilk ''purchaseDate'') \<longrightarrow>
           (\<exists>p. parseDate hostTokyo (val (newMilk ''purchaseDate'')) = Some p \<and> p \<le> 20096 * 86400000)"
    by (simp add: newMilk_def)
  have t: "parseDate hostTokyo (getTodayString hostTokyo) = Some (20093 * 86400000)"
    by code_simp
  have c: "\<not> truthy (newMilk ''purchaseDate'') \<longrightarrow>
           (\<exists>t. parseDate hostTokyo (getTodayString hostTokyo) = Some t \<and> t \<le> 20096 * 86400000)"
    by (simp add: t)
  show ?thesis
    using validate_create [OF a b c] by simp
qed

text \<open>
  C3 as stated fails when the purchase date is absent and the expiration date is in the
  past: creation fills in today's date as the purchase date, which is then later than the
  expiration date.
\<close>

theorem validate_create_counterexample:
  "oldMilk ''name'' = Some '' Milk '' \<and> trim '' Milk '' \<noteq> [] \<and> length (trim '' Milk '') \<le> 100
 \<and> oldMilk ''category'' = Some ''Dairy'' \<and> trim ''Dairy'' \<noteq> []
 \<and> oldMilk ''expirationDate'' = Some ''2020-01-01''
 \<and> parseDate hostTokyo ''2020-01-01'' = Some (18262 * 86400000)
 \<and> oldMilk ''purchaseDate'' = None
 \<and> valid (validateIngredient hostTokyo oldMilk)
 \<and> \<not> valid (validateIngredient hostTokyo (asObject (createIngredient hostTokyo oldMilk)))
 \<and> errors (validateIngredient hostTokyo (asObject (createIngredient hostTokyo oldMilk)))
     = [(''purchaseDate'', PurchaseAfterExpiration)]"
  by code_simp

subsection \<open>Updating a stored ingredient\<close>

lemma findIndex_absent: "(findIndex p xs = - 1) = (\<forall>x \<in> set xs. \<not> p x)"
  and findIndex_nonneg: "- 1 \<le> findIndex p xs"
  by (induction xs) (auto simp: Let_def)

lemma findIndex_present:
  "\<exists>x \<in> set xs. p x \<Longrightarrow>
   0 \<le> findIndex p xs \<and> nat (findIndex p xs) < length xs \<and> p (xs ! nat (findIndex p xs))
   \<and> (\<forall>j < nat (findIndex p xs). \<not> p (xs ! j))"
proof (induction xs)
  case Nil
  then show ?case by simp
next
  case (Cons x xs)
  show ?case
  proof (cases "p x")
    case True
    then show ?thesis by simp
  next
    case False
    then have ex: "\<exists>x \<in> set xs. p x"
      using Cons.prems by simp
    then have ne: "findIndex p xs \<noteq> - 1"
      by (simp add: findIndex_absent)
    have ih: "0 \<le> findIndex p xs \<and> nat (findIndex p xs) < length xs \<and> p (xs ! nat (findIndex p xs))
              \<and> (\<forall>j < nat (findIndex p xs). \<not> p (xs ! j))"
      by (rule Cons.IH [OF ex])
    have n: "nat (findIndex p xs + 1) = Suc (nat (findIndex p xs))"
      using ih by arith
    show ?thesis
      using False ne ih by (auto simp: Let_def n nth_Cons split: nat.split)
  qed
qed

text \<open>
  C4, as amended. When the id is present, \<open>updateIngredient\<close> addresses the first record
  with that id; if the storage accepts the write it returns true and stores the list in
  which that record is replaced by the merge: the id is the original one, \<open>updatedAt\<close> is
  the current time, and every other property, \<open>createdAt\<close> included, is the one from
  \<open>updates\<close> when \<open>updates\<close> has it and the original one otherwise. If the storage
  refuses the write, or if the id is not present, it returns false and the stored
  collection is unchanged.
\<close>

theorem update_merge:
  "let xs = loadIngredients store;
       i = nat (findIndex (\<lambda>ing. ingId ing = ident) xs);
       old = xs ! i;
       new = \<lparr> ingId = ingId old,
               name = (case updates ''name'' of Some v \<Rightarrow> v | None \<Rightarrow> name old),
               category = (case updates ''category'' of Some v \<Rightarrow> v | None \<Rightarrow> category old),
               purchaseDate = (case updates ''purchaseDate'' of Some v \<Rightarrow> v | None \<Rightarrow> purchaseDate old),
               expirationDate = (case updates ''expirationDate'' of Some v \<Rightarrow> v | None \<Rightarrow> expirationDate old),
               quantity = (case updates ''quantity'' of Some v \<Rightarrow> v | None \<Rightarrow> quantity old),
               location = (case updates ''location'' of Some v \<Rightarrow> v | None \<Rightarrow> location old),
               notes' = (case updates ''notes'' of Some v \<Rightarrow> v | None \<Rightarrow> notes' old),
               createdAt = (case updates ''createdAt'' of Some v \<Rightarrow> v | None \<Rightarrow> createdAt old),
               updatedAt = toISOString env (now env) \<rparr>
   in (ident \<in> ingId ` set xs \<longrightarrow>
         i < length xs \<and> ingId old = ident \<and> (\<forall>j < i. ingId (xs ! j) \<noteq> ident)
         \<and> updateIngredient env ident updates store =
             (if setItemOk env (xs[i := new]) then (True, Some (xs[i := new])) else (False, store)))
    \<and> (ident \<notin> ingId ` set xs \<longrightarrow> updateIngredient env ident updates store = (False, store))"
proof -
  let ?xs = "loadIngredients store"
  let ?p = "\<lambda>ing. ingId ing = ident"
  have absent: "updateIngredient env ident updates store = (False, store)" if "ident \<notin> ingId ` set ?xs"
  proof -
    have "findIndex ?p ?xs = - 1"
      using that by (auto simp: findIndex_absent)
    then show ?thesis
      by (simp add: updateIngredient_def updateIngredient_try_def)
  qed
  have present: "nat (findIndex ?p ?xs) < length ?xs \<and> ingId (?xs ! nat (findIndex ?p ?xs)) = ident
      \<and> (\<forall>j < nat (findIndex ?p ?xs). ingId (?xs ! j) \<noteq> ident)
      \<and> findIndex ?p ?xs \<noteq> - 1" if "ident \<in> ingId ` set ?xs"
  proof -
    have "\<exists>x \<in> set ?xs. ?p x"
      using that by auto
    from findIndex_present [OF this] show ?thesis
      by auto
  qed
  show ?thesis
    using absent present
    by (auto simp: Let_def updateIngredient_def updateIngredient_try_def saveIngredients_def spread_def)
qed

theorem update_merge_witness:
  "updateIngredient hostTokyo ''b2'' tamper (Some [milk, tea])
     = (True, Some [milk, tea\<lparr>name := ''Soy Milk'', createdAt := ''1999-12-31T00:00:00.000Z'',
                              updatedAt := ''2025-01-05T03:00:00.000Z''\<rparr>])
 \<and> updateIngredient hostTokyo ''c3'' tamper (Some [milk, tea]) = (False, Some [milk, tea])"
proof -
  have a: "''b2'' \<in> ingId ` set (loadIngredients (Some [milk, tea]))"
    by (simp add: milk_def tea_def)
  have b: "''c3'' \<notin> ingId ` set (loadIngredients (Some [milk, tea]))"
    by (simp add: milk_def tea_def)
  show ?thesis
    using update_merge [of "Some [milk, tea]" "''b2''" tamper hostTokyo]
      update_merge [of "Some [milk, tea]" "''c3''" tamper hostTokyo] a b
    by (simp add: Let_def milk_def tea_def tamper_def hostTokyo_def)
qed

text \<open>
  C4 as stated fails: a \<open>createdAt\<close> in \<open>updates\<close> replaces the original one (the id is
  kept), and on a full storage nothing is merged.
\<close>

theorem update_createdAt_counterexample:
  "map createdAt (loadIngredients (snd (updateIngredient hostTokyo ''a1'' tamper (Some [milk]))))
     = [''1999-12-31T00:00:00.000Z'']
 \<and> map createdAt (loadIngredients (Some [milk])) = [''2025-01-05T03:00:00.000Z'']
 \<and> map ingId (loadIngredients (snd (updateIngredient hostTokyo ''a1'' tamper (Some [milk])))) = [''a1'']
 \<and> fst (updateIngredient hostTokyo ''a1'' tamper (Some [milk]))
 \<and> updateIngredient hostFull ''a1'' tamper (Some [milk]) = (False, Some [milk])"
  by code_simp

subsection \<open>The timeline bar\<close>








subsection \<open>Filtering\<close>

lemma str_includes_sublist: "str_includes s q \<longleftrightarrow> sublist q s"
  by (induction s) (simp_all add: sublist_Cons_right)

lemma guarded_includes:
  "(str_includes (toLowerCase s) q \<or> str_includes (toLowerCase c) q
      \<or> (n \<noteq> [] \<and> str_includes (toLowerCase n) q))
   \<longleftrightarrow> (sublist q (toLowerCase s) \<or> sublist q (toLowerCase c) \<or> sublist q (toLowerCase n))"
  by (cases n) (auto simp: str_includes_sublist toLowerCase_def)

lemma if_filter: "(if c then filter P xs else xs) = filter (\<lambda>x. c \<longrightarrow> P x) xs"
  by simp

lemma truthy_val: "(truthy v \<and> val v \<noteq> []) = truthy v"
  by (cases v) auto

lemma filterIngredients_eq:
  "filterIngredients env ings f =
     filter (\<lambda>ing.
         (truthy (f ''search'') \<longrightarrow>
            sublist (trim (toLowerCase (val (f ''search'')))) (toLowerCase (name ing))
          \<or> sublist (trim (toLowerCase (val (f ''search'')))) (toLowerCase (category ing))
          \<or> sublist (trim (toLowerCase (val (f ''search'')))) (toLowerCase (notes' ing)))
       \<and> (truthy (f ''category'') \<longrightarrow> category ing = val (f ''category''))
       \<and> (truthy (f ''status'') \<longrightarrow> getExpirationStatus env ing = val (f ''status''))
       \<and> (truthy (f ''startDate'') \<longrightarrow>
            js_ge (getTime (newDate env (expirationDate ing)))
                  (getTime (newDate env (val (f ''startDate'')))))
       \<and> (truthy (f ''endDate'') \<longrightarrow>
            js_le (getTime (newDate env (expirationDate ing)))
                  (getTime (newDate env (val (f ''endDate'')))))) ings"
  unfolding filterIngredients_def Let_def truthy_val guarded_includes if_filter filter_filter
  by (rule filter_cong) blast+

text \<open>
  C5, as amended. \<open>filterIngredients\<close> keeps, in their order, the records that satisfy
  every active criterion: the category, status, start-date and end-date criteria when the
  respective setting is present and non-empty, and a search criterion \<open>keepSearch\<close>. An
  absent or empty search is no constraint. A non-empty search accepts every record whose
  lower-cased name, category or notes contain the lower-cased and trimmed query, and
  accepts no record unless its lower-cased name, category, notes or location contain it.
  (Whether a record that matches in its location only is kept is left open here.)
\<close>

theorem filter_conjunctive:
  "\<exists>keepSearch.
      filterIngredients env ings f =
        filter (\<lambda>ing. keepSearch ing
             \<and> (truthy (f ''category'') \<longrightarrow> category ing = val (f ''category''))
             \<and> (truthy (f ''status'') \<longrightarrow> getExpirationStatus env ing = val (f ''status''))
             \<and> (truthy (f ''startDate'') \<longrightarrow>
                  js_ge (getTime (newDate env (expirationDate ing)))
                        (getTime (newDate env (val (f ''startDate'')))))
             \<and> (truthy (f ''endDate'') \<longrightarrow>
                  js_le (getTime (newDate env (expirationDate ing)))
                        (getTime (newDate env (val (f ''endDate'')))))) ings
    \<and> (\<forall>ing. (truthy (f ''search'') \<longrightarrow>
                  sublist (trim (toLowerCase (val (f ''search'')))) (toLowerCase (name ing))
                \<or> sublist (trim (toLowerCase (val (f ''search'')))) (toLowerCase (category ing))
                \<or> sublist (trim (toLowerCase (val (f ''search'')))) (toLowerCase (notes' ing)))
              \<longrightarrow> keepSearch ing)
    \<and> (\<forall>ing. keepSearch ing \<longrightarrow> truthy (f ''search'') \<longrightarrow>
                  sublist (trim (toLowerCase (val (f ''search'')))) (toLowerCase (name ing))
                \<or> sublist (trim (toLowerCase (val (f ''search'')))) (toLowerCase (category ing))
                \<or> sublist (trim (toLowerCase (val (f ''search'')))) (toLowerCase (notes' ing))
                \<or> sublist (trim (toLowerCase (val (f ''search'')))) (toLowerCase (location ing)))"
  by (rule exI [where x = "\<lambda>ing. truthy (f ''search'') \<longrightarrow>
                  sublist (trim (toLowerCase (val (f ''search'')))) (toLowerCase (name ing))
                \<or> sublist (trim (toLowerCase (val (f ''search'')))) (toLowerCase (category ing))
                \<or> sublist (trim (toLowerCase (val (f ''search'')))) (toLowerCase (notes' ing))"])
     (simp only: filterIngredients_eq, blast)


theorem filter_conjunctive_witness:
  "filterIngredients hostTokyo [milk, tea] searchMilk = [milk]"
proof -
  let ?q = "trim (toLowerCase (val (searchMilk ''search'')))"
  have a: "truthy (searchMilk ''search'')" "\<not> truthy (searchMilk ''category'')"
    "\<not> truthy (searchMilk ''status'')" "\<not> truthy (searchMilk ''startDate'')"
    "\<not> truthy (searchMilk ''endDate'')"
    by code_simp+
  have m: "sublist ?q (toLowerCase (name milk))"
    by code_simp
  have t: "\<not> sublist ?q (toLowerCase (name tea))" "\<not> sublist ?q (toLowerCase (category tea))"
    "\<not> sublist ?q (toLowerCase (notes' tea))" "\<not> sublist ?q (toLowerCase (location tea))"
    by code_simp+
  obtain K where r: "filterIngredients hostTokyo [milk, tea] searchMilk =
        filter (\<lambda>ing. K ing
             \<and> (truthy (searchMilk ''category'') \<longrightarrow> category ing = val (searchMilk ''category''))
             \<and> (truthy (searchMilk ''status'') \<longrightarrow> getExpirationStatus hostTokyo ing = val (searchMilk ''status''))
             \<and> (truthy (searchMilk ''startDate'') \<longrightarrow>
                  js_ge (getTime (newDate hostTokyo (expirationDate ing)))
                        (getTime (newDate hostTokyo (val (searchMilk ''startDate'')))))
             \<and> (truthy (searchMilk ''endDate'') \<longrightarrow>
                  js_le (getTime (newDate hostTokyo (expirationDate ing)))
                        (getTime (newDate hostTokyo (val (searchMilk ''endDate'')))))) [milk, tea]"
    and up: "\<forall>ing. (truthy (searchMilk ''search'') \<longrightarrow>
                  sublist ?q (toLowerCase (name ing)) \<or> sublist ?q (toLowerCase (category ing))
                \<or> sublist ?q (toLowerCase (notes' ing))) \<longrightarrow> K ing"
    and dn: "\<forall>ing. K ing \<longrightarrow> truthy (searchMilk ''search'') \<longrightarrow>
                  sublist ?q (toLowerCase (name ing)) \<or> sublist ?q (toLowerCase (category ing))
                \<or> sublist ?q (toLowerCase (notes' ing)) \<or> sublist ?q (toLowerCase (location ing))"
    using filter_conjunctive [of hostTokyo "[milk, tea]" searchMilk] by (elim exE conjE)
  have km: "K milk"
    using up m by blast
  have kt: "\<not> K tea"
    using dn a(1) t by blast
  show ?thesis
    unfolding r using a km kt by simp
qed

text \<open>
  C5 as stated fails twice. The query is trimmed: a search for " milk" keeps Milk although
  the lower-cased query, with its space, occurs in none of the four fields. And
  \<open>filterIngredients\<close> does not look at the location: a search for "fridge" drops the
  record stored in the Fridge, which \<open>searchIngredients\<close> keeps.
\<close>

theorem filter_search_counterexample:
  "filterIngredients hostTokyo [milk] [''search'' \<mapsto> '' milk''] = [milk]
 \<and> \<not> sublist (toLowerCase '' milk'') (toLowerCase (name milk))
 \<and> \<not> sublist (toLowerCase '' milk'') (toLowerCase (category milk))
 \<and> \<not> sublist (toLowerCase '' milk'') (toLowerCase (notes' milk))
 \<and> \<not> sublist (toLowerCase '' milk'') (toLowerCase (location milk))
 \<and> filterIngredients hostTokyo [milk] searchFridge = []
 \<and> sublist (toLowerCase ''fridge'') (toLowerCase (location milk))
 \<and> searchIngredients [milk] (searchFridge ''search'') = [milk]"
  by code_simp

subsection \<open>Sorting\<close>

lemma mset_insertBy: "mset (insertBy cmp x ys) = add_mset x (mset ys)"
  by (induction ys) simp_all

lemma mset_Array_sort: "mset (Array_sort cmp xs) = mset xs"
  by (induction xs) (simp_all add: Array_sort_def mset_insertBy)

lemma set_insertBy: "set (insertBy cmp x ys) = insert x (set ys)"
  by (metis mset_insertBy set_mset_add_mset_insert set_mset_mset)

lemma set_Array_sort: "set (Array_sort cmp xs) = set xs"
  by (metis mset_Array_sort set_mset_mset)

lemma insertBy_cong:
  "(\<And>b. b \<in> set ys \<Longrightarrow> cmp x b = cmp' x b) \<Longrightarrow> insertBy cmp x ys = insertBy cmp' x ys"
  by (induction ys) simp_all

lemma Array_sort_cong:
  "(\<And>a b. a \<in> set xs \<Longrightarrow> b \<in> set xs \<Longrightarrow> cmp a b = cmp' a b) \<Longrightarrow>
   Array_sort cmp xs = Array_sort cmp' xs"
proof (induction xs)
  case Nil
  then show ?case by (simp add: Array_sort_def)
next
  case (Cons x xs)
  have ih: "Array_sort cmp xs = Array_sort cmp' xs"
    using Cons by simp
  have "insertBy cmp x (Array_sort cmp' xs) = insertBy cmp' x (Array_sort cmp' xs)"
    by (rule insertBy_cong) (simp add: set_Array_sort Cons.prems)
  then show ?case
    using ih by (simp add: Array_sort_def)
qed

lemma compareBy_le:
  "compareBy key asc a b \<le> 0 \<longleftrightarrow> (if asc then key a \<le> key b else key b \<le> key a)"
  by (auto simp: compareBy_def)

lemma stable_insertBy:
  "filter (\<lambda>y. key y = k) (insertBy (compareBy key asc) x ys) = filter (\<lambda>y. key y = k) (x # ys)"
  by (induction ys) (auto simp: compareBy_le)

lemma stable_Array_sort:
  "filter (\<lambda>y. key y = k) (Array_sort (compareBy key asc) xs) = filter (\<lambda>y. key y = k) xs"
proof (induction xs)
  case Nil
  then show ?case by (simp add: Array_sort_def)
next
  case (Cons x xs)
  have "Array_sort (compareBy key asc) (x # xs) = insertBy (compareBy key asc) x (Array_sort (compareBy key asc) xs)"
    by (simp add: Array_sort_def)
  then show ?case
    using Cons.IH by (simp add: stable_insertBy)
qed

lemma sorted_insertBy:
  "sorted_wrt (\<lambda>a b. compareBy key asc a b \<le> 0) ys \<Longrightarrow>
   sorted_wrt (\<lambda>a b. compareBy key asc a b \<le> 0) (insertBy (compareBy key asc) x ys)"
proof (induction ys)
  case Nil
  then show ?case by simp
next
  case (Cons y ys)
  show ?case
  proof (cases "compareBy key asc x y \<le> 0")
    case True
    then have "\<forall>z \<in> set ys. compareBy key asc x z \<le> 0"
      using Cons.prems by (cases asc) (auto simp: compareBy_le)
    then show ?thesis
      using True Cons.prems by simp
  next
    case False
    then have "compareBy key asc y x \<le> 0"
      by (cases asc) (auto simp: compareBy_le)
    then show ?thesis
      using False Cons by (simp add: set_insertBy)
  qed
qed

lemma sorted_Array_sort:
  "sorted_wrt (\<lambda>a b. compareBy key asc a b \<le> 0) (Array_sort (compareBy key asc) xs)"
proof (induction xs)
  case Nil
  then show ?case by (simp add: Array_sort_def)
next
  case (Cons x xs)
  have "Array_sort (compareBy key asc) (x # xs) = insertBy (compareBy key asc) x (Array_sort (compareBy key asc) xs)"
    by (simp add: Array_sort_def)
  then show ?case
    using Cons.IH by (simp add: sorted_insertBy)
qed

lemma sorted_asc: "sorted (map key (Array_sort (compareBy key True) xs))"
  using sorted_Array_sort [of key True xs] by (simp add: sorted_map compareBy_le)

lemma sorted_desc: "sorted (rev (map key (Array_sort (compareBy key False) xs)))"
proof -
  have "sorted_wrt (\<lambda>a b. key b \<le> key a) (Array_sort (compareBy key False) xs)"
    using sorted_Array_sort [of key False xs] by (simp add: compareBy_le)
  then have "sorted_wrt (\<lambda>a b. key a \<le> key b) (rev (Array_sort (compareBy key False) xs))"
    by (simp add: sorted_wrt_rev)
  then show ?thesis
    by (simp add: sorted_map rev_map)
qed

lemma desc_is_rev_asc:
  assumes "distinct (map key xs)"
  shows "Array_sort (compareBy key False) xs = rev (Array_sort (compareBy key True) xs)"
proof -
  let ?A = "Array_sort (compareBy key False) xs"
  let ?B = "rev (Array_sort (compareBy key True) xs)"
  have mA: "mset (map key ?A) = mset (map key xs)" and mB: "mset (map key ?B) = mset (map key xs)"
    by (simp_all add: mset_Array_sort)
  have dA: "distinct (rev (map key ?A))" and dB: "distinct (rev (map key ?B))"
    using assms mA mB by (metis distinct_rev mset_eq_imp_distinct_iff)+
  have sA: "sorted (rev (map key ?A))"
    by (rule sorted_desc)
  have sB: "sorted (rev (map key ?B))"
    using sorted_asc [of key xs] by (simp add: rev_map)
  have "set (rev (map key ?A)) = set (rev (map key ?B))"
    by (simp add: set_Array_sort)
  with sA dA sB dB have "rev (map key ?A) = rev (map key ?B)"
    by (rule sorted_distinct_set_unique)
  then have eq: "map key ?A = map key ?B"
    by simp
  have "inj_on key (set xs)"
    using assms by (simp add: distinct_map)
  then have "inj_on key (set ?A \<union> set ?B)"
    by (simp add: set_Array_sort)
  then show ?thesis
    using eq by (simp add: inj_on_map_eq_map)
qed


lemma status_four:
  "getExpirationStatus env a \<in> {''expired'', ''critical'', ''warning'', ''fresh''}"
  by (simp add: getExpirationStatus_def Let_def)

lemma statusOrder_rank:
  "s \<in> {''expired'', ''critical'', ''warning'', ''fresh''} \<Longrightarrow>
   statusOrder s = Num (of_int (statusRank s))"
  by (auto simp: statusOrder_def statusRank_def)

lemma compareFn_name:
  "compareFn env ''name'' order a b = compareBy (orderKey env ''name'') (order = ''asc'') a b"
  by (simp add: compareFn_def compareValues_def orderKey_def compareBy_def)

lemma compareFn_category:
  "compareFn env ''category'' order a b = compareBy (orderKey env ''category'') (order = ''asc'') a b"
  by (simp add: compareFn_def compareValues_def orderKey_def compareBy_def)

lemma compareFn_status:
  "compareFn env ''status'' order a b = compareBy (orderKey env ''status'') (order = ''asc'') a b"
  using statusOrder_rank [OF status_four [of env a]] statusOrder_rank [OF status_four [of env b]]
  by (simp add: compareFn_def compareValues_def orderKey_def compareBy_def)

lemma compareFn_expiration:
  assumes "parseDate env (expirationDate a) \<noteq> None" "parseDate env (expirationDate b) \<noteq> None"
  shows "compareFn env ''expiration'' order a b
         = compareBy (orderKey env ''expiration'') (order = ''asc'') a b"
  using assms
  by (auto simp: compareFn_def compareValues_def orderKey_def compareBy_def newDate_def)

lemma compareFn_purchase:
  assumes "parseDate env (orStr (purchaseDate a) ''1900-01-01'') \<noteq> None"
    "parseDate env (orStr (purchaseDate b) ''1900-01-01'') \<noteq> None"
  shows "compareFn env ''purchase'' order a b
         = compareBy (orderKey env ''purchase'') (order = ''asc'') a b"
  using assms
  by (auto simp: compareFn_def compareValues_def orderKey_def compareBy_def newDate_def)

lemma sortIngredients_by_key:
  assumes "sortBy \<in> {''name'', ''category'', ''purchase'', ''expiration'', ''status''}"
    and "sortBy = ''expiration'' \<longrightarrow> (\<forall>a \<in> set xs. parseDate env (expirationDate a) \<noteq> None)"
    and "sortBy = ''purchase'' \<longrightarrow>
           (\<forall>a \<in> set xs. parseDate env (orStr (purchaseDate a) ''1900-01-01'') \<noteq> None)"
  shows "sortIngredients env xs sortBy order
         = Array_sort (compareBy (orderKey env sortBy) (order = ''asc'')) xs"
proof -
  have keys: "sortBy = ''name'' \<or> sortBy = ''category'' \<or> sortBy = ''purchase''
        \<or> sortBy = ''expiration'' \<or> sortBy = ''status''"
    using assms(1) by (simp only: insert_iff empty_iff simp_thms)
  have "compareFn env sortBy order a b = compareBy (orderKey env sortBy) (order = ''asc'') a b"
    if ab: "a \<in> set xs" "b \<in> set xs" for a b
    using keys
  proof (elim disjE)
    assume n: "sortBy = ''name''"
    show ?thesis
      unfolding n by (rule compareFn_name)
  next
    assume c: "sortBy = ''category''"
    show ?thesis
      unfolding c by (rule compareFn_category)
  next
    assume p: "sortBy = ''purchase''"
    have "parseDate env (orStr (purchaseDate a) ''1900-01-01'') \<noteq> None"
      "parseDate env (orStr (purchaseDate b) ''1900-01-01'') \<noteq> None"
      using assms(3) p ab by blast+
    then show ?thesis
      unfolding p by (rule compareFn_purchase)
  next
    assume e: "sortBy = ''expiration''"
    have "parseDate env (expirationDate a) \<noteq> None" "parseDate env (expirationDate b) \<noteq> None"
      using assms(2) e ab by blast+
    then show ?thesis
      unfolding e by (rule compareFn_expiration)
  next
    assume s: "sortBy = ''status''"
    show ?thesis
      unfolding s by (rule compareFn_status)
  qed
  then show ?thesis
    unfolding sortIngredients_def Let_def by (rule Array_sort_cong)
qed

text \<open>
  C7, as amended. For each of the five sort fields (for the two date fields: when the
  dates of all records parse), \<open>sortIngredients\<close> returns a permutation of its input
  (the input itself is a value and is not changed) that is ordered by \<open>orderKey\<close>:
  ascending for \<open>asc\<close>, descending for any other order. The sort is stable: the records
  with any one key appear in their input order, under either order. When the keys of the
  records are pairwise distinct, the result for \<open>desc\<close> is the reversal of the result for
  \<open>asc\<close>.
\<close>

theorem sort_stable_ordered:
  assumes "sortBy \<in> {''name'', ''category'', ''purchase'', ''expiration'', ''status''}"
    and "sortBy = ''expiration'' \<longrightarrow> (\<forall>a \<in> set xs. parseDate env (expirationDate a) \<noteq> None)"
    and "sortBy = ''purchase'' \<longrightarrow>
           (\<forall>a \<in> set xs. parseDate env (orStr (purchaseDate a) ''1900-01-01'') \<noteq> None)"
  shows "mset (sortIngredients env xs sortBy order) = mset xs
       \<and> (order = ''asc'' \<longrightarrow>
            sorted (map (orderKey env sortBy) (sortIngredients env xs sortBy order)))
       \<and> (order \<noteq> ''asc'' \<longrightarrow>
            sorted (rev (map (orderKey env sortBy) (sortIngredients env xs sortBy order))))
       \<and> (\<forall>k. filter (\<lambda>a. orderKey env sortBy a = k) (sortIngredients env xs sortBy order)
               = filter (\<lambda>a. orderKey env sortBy a = k) xs)
       \<and> (distinct (map (orderKey env sortBy) xs) \<longrightarrow>
            sortIngredients env xs sortBy ''desc'' = rev (sortIngredients env xs sortBy ''asc''))"
proof -
  note k = sortIngredients_by_key [OF assms]
  have m: "mset (sortIngredients env xs sortBy order) = mset xs"
    by (simp add: k mset_Array_sort)
  have a: "sorted (map (orderKey env sortBy) (sortIngredients env xs sortBy order))" if "order = ''asc''"
    using that by (simp add: k sorted_asc)
  have d: "sorted (rev (map (orderKey env sortBy) (sortIngredients env xs sortBy order)))" if "order \<noteq> ''asc''"
    using that sorted_desc [of "orderKey env sortBy" xs] by (simp add: k)
  have s: "filter (\<lambda>a. orderKey env sortBy a = k) (sortIngredients env xs sortBy order)
               = filter (\<lambda>a. orderKey env sortBy a = k) xs" for k
    by (simp only: k stable_Array_sort)
  have r: "sortIngredients env xs sortBy ''desc'' = rev (sortIngredients env xs sortBy ''asc'')"
    if "distinct (map (orderKey env sortBy) xs)"
    using desc_is_rev_asc [OF that] by (simp add: k)
  show ?thesis
    using m a d s r by blast
qed

theorem sort_stable_ordered_witness:
  "sortIngredients hostTokyo [tea, milk, milk2] ''expiration'' ''asc'' = [milk, milk2, tea]
 \<and> sortIngredients hostTokyo [tea, milk] ''expiration'' ''desc''
     = rev (sortIngredients hostTokyo [tea, milk] ''expiration'' ''asc'')"
proof -
  have k: "''expiration'' \<in> {''name'', ''category'', ''purchase'', ''expiration'', ''status''}"
    by simp
  have v: "''expiration'' = ''expiration'' \<longrightarrow>
      (\<forall>a \<in> set [tea, milk, milk2]. parseDate hostTokyo (expirationDate a) \<noteq> None)"
    "''expiration'' = ''expiration'' \<longrightarrow>
      (\<forall>a \<in> set [tea, milk]. parseDate hostTokyo (expirationDate a) \<noteq> None)"
    by code_simp+
  have p: "''expiration'' = ''purchase'' \<longrightarrow>
      (\<forall>a \<in> set [tea, milk, milk2]. parseDate hostTokyo (orStr (purchaseDate a) ''1900-01-01'') \<noteq> None)"
    "''expiration'' = ''purchase'' \<longrightarrow>
      (\<forall>a \<in> set [tea, milk]. parseDate hostTokyo (orStr (purchaseDate a) ''1900-01-01'') \<noteq> None)"
    by simp_all
  have d: "distinct (map (orderKey hostTokyo ''expiration'') [tea, milk])"
    by code_simp
  have e: "sortIngredients hostTokyo [tea, milk, milk2] ''expiration'' ''asc'' = [milk, milk2, tea]"
    by code_simp
  have "sortIngredients hostTokyo [tea, milk] ''expiration'' ''desc''
     = rev (sortIngredients hostTokyo [tea, milk] ''expiration'' ''asc'')"
    using sort_stable_ordered [OF k v(2) p(2), of "''asc''"] d by blast
  moreover have "mset (sortIngredients hostTokyo [tea, milk, milk2] ''expiration'' ''asc'') = mset [tea, milk, milk2]"
    using sort_stable_ordered [OF k v(1) p(1), of "''asc''"] by blast
  ultimately show ?thesis
    using e by simp
qed

text \<open>
  C7 as stated fails for records with identical keys: being stable, the sort leaves them
  in input order under \<open>asc\<close> and under \<open>desc\<close>, so the \<open>desc\<close> result is not the
  reversal of the \<open>asc\<close> result. And next to a record whose date does not parse, against
  which the comparison function answers 0 whatever the other date, records stay out of
  chronological order: tea (15 April) remains in front of milk (8 January).
\<close>

theorem sort_ties_counterexample:
  "toLowerCase (name milk) = toLowerCase (name milk2)
 \<and> sortIngredients hostTokyo [milk, milk2] ''name'' ''asc'' = [milk, milk2]
 \<and> sortIngredients hostTokyo [milk, milk2] ''name'' ''desc'' = [milk, milk2]
 \<and> rev (sortIngredients hostTokyo [milk, milk2] ''name'' ''asc'') = [milk2, milk]
 \<and> sortIngredients hostTokyo [milk, milk2] ''name'' ''desc''
     \<noteq> rev (sortIngredients hostTokyo [milk, milk2] ''name'' ''asc'')
 \<and> parseDate hostTokyo (expirationDate stale) = None
 \<and> sortIngredients hostTokyo [tea, stale, milk] ''expiration'' ''asc'' = [tea, stale, milk]
 \<and> orderKey hostTokyo ''expiration'' milk < orderKey hostTokyo ''expiration'' tea"
  by code_simp

subsection \<open>Statistics\<close>

lemma total_fold:
  "total (fold (\<lambda>ing st. statsStep env st ing) xs st) = total st"
  by (induction xs arbitrary: st) (simp_all add: statsStep_def bumpStatus_def Let_def)

lemma buckets_step:
  "expired (statsStep env st ing) + critical (statsStep env st ing)
     + warning (statsStep env st ing) + fresh (statsStep env st ing)
   = Suc (expired st + critical st + warning st + fresh st)"
  using status_four [of env ing]
  by (auto simp: statsStep_def bumpStatus_def Let_def)

lemma buckets_fold:
  "expired (fold (\<lambda>ing st. statsStep env st ing) xs st)
     + critical (fold (\<lambda>ing st. statsStep env st ing) xs st)
     + warning (fold (\<lambda>ing st. statsStep env st ing) xs st)
     + fresh (fold (\<lambda>ing st. statsStep env st ing) xs st)
   = length xs + (expired st + critical st + warning st + fresh st)"
proof (induction xs arbitrary: st)
  case Nil
  then show ?case by simp
next
  case (Cons x xs)
  show ?case
    using Cons.IH [of "statsStep env st x"] buckets_step [of env st x] by simp
qed

text \<open>
  For every list, \<open>total\<close> is its length and the four bucket counts add up to it.
\<close>

lemma stats_total_buckets:
  "total (getIngredientStats env xs) = length xs
 \<and> expired (getIngredientStats env xs) + critical (getIngredientStats env xs)
     + warning (getIngredientStats env xs) + fresh (getIngredientStats env xs) = length xs"
  using buckets_fold [of env xs
      "\<lparr> total = length xs, expired = 0, critical = 0, warning = 0, fresh = 0, byCategory = [] \<rparr>"]
  by (simp add: getIngredientStats_def total_fold)

lemma counts_lookup:
  assumes "counts obj" "map_of obj k = Some v"
  shows "\<exists>n. v = Num (of_nat (Suc n))"
proof -
  have "(k, v) \<in> set obj"
    using assms(2) by (rule map_of_SomeD)
  then have "\<exists>n. snd (k, v) = Num (of_nat (Suc n))"
    using assms(1) unfolding counts_def by blast
  then show ?thesis
    by (simp del: of_nat_Suc)
qed

lemma sumValues_update_new:
  "map_of obj k = None \<Longrightarrow> sumValues (AList.update k (Num 1) obj) = js_add (sumValues obj) (Num 1)"
proof (induction obj)
  case Nil
  then show ?case by (simp add: sumValues_def)
next
  case (Cons p ps)
  then have "fst p \<noteq> k" and "map_of ps k = None"
    by (cases p; auto split: if_splits)+
  then show ?case
    using Cons.IH
    by (cases "snd p"; cases "foldr js_add (map snd ps) (Num 0)") (simp_all add: sumValues_def)
qed


lemma sumValues_update_old:
  "map_of obj k = Some (Num r) \<Longrightarrow>
   sumValues (AList.update k (Num (r + 1)) obj) = js_add (sumValues obj) (Num 1)"
proof (induction obj)
  case Nil
  then show ?case by simp
next
  case (Cons p ps)
  show ?case
  proof (cases "fst p = k")
    case True
    then have "snd p = Num r"
      using Cons.prems by (cases p) simp
    then show ?thesis
      using True by (cases "foldr js_add (map snd ps) (Num 0)") (simp_all add: sumValues_def)
  next
    case False
    then have "map_of ps k = Some (Num r)"
      using Cons.prems by (cases p) (simp split: if_splits)
    then show ?thesis
      using False Cons.IH
      by (cases "snd p"; cases "foldr js_add (map snd ps) (Num 0)") (simp_all add: sumValues_def)
  qed
qed

lemma set_update_subset: "set (AList.update k v al) \<subseteq> insert (k, v) (set al)"
  by (induction al) auto

lemma counts_update:
  "counts obj \<Longrightarrow> counts (AList.update k (Num (of_nat (Suc n))) obj)"
  unfolding counts_def using set_update_subset [of k "Num (of_nat (Suc n))" obj] by fastforce

lemma proto_key_not_member: "k \<notin> set objectPrototypeKeys \<Longrightarrow> k \<noteq> ''__proto__''"
  by (auto simp: objectPrototypeKeys_def)

lemma bumpCategory_new:
  assumes "k \<notin> set objectPrototypeKeys" "map_of obj k = None"
  shows "bumpCategory k obj = AList.update k (Num 1) obj"
  using assms proto_key_not_member [OF assms(1)]
  by (simp add: bumpCategory_def getProp_def setProp_def update_conv' Let_def)

lemma bumpCategory_old:
  assumes "k \<notin> set objectPrototypeKeys" "map_of obj k = Some (Num (of_nat (Suc n)))"
  shows "bumpCategory k obj = AList.update k (Num (of_nat (Suc n) + 1)) obj"
  using assms proto_key_not_member [OF assms(1)]
  by (simp add: bumpCategory_def getProp_def setProp_def Let_def del: of_nat_Suc)

lemma bumpCategory_counts:
  assumes "k \<notin> set objectPrototypeKeys" "counts obj"
  shows "counts (bumpCategory k obj)
       \<and> sumValues (bumpCategory k obj) = js_add (sumValues obj) (Num 1)"
proof (cases "map_of obj k")
  case None
  have "counts (AList.update k (Num (of_nat (Suc 0))) obj)"
    using assms(2) by (rule counts_update)
  then show ?thesis
    using bumpCategory_new [OF assms(1) None] sumValues_update_new [OF None] by simp
next
  case (Some v)
  then obtain n where v: "v = Num (of_nat (Suc n))"
    using counts_lookup [OF assms(2)] by blast
  have m: "map_of obj k = Some (Num (of_nat (Suc n)))"
    using Some v by simp
  have "counts (AList.update k (Num (of_nat (Suc (Suc n)))) obj)"
    using assms(2) by (rule counts_update)
  moreover have "(of_nat (Suc (Suc n)) :: rat) = of_nat (Suc n) + 1"
    by simp
  ultimately show ?thesis
    using bumpCategory_old [OF assms(1) m] sumValues_update_old [OF m] by (simp del: of_nat_Suc)
qed

lemma byCategory_step:
  "byCategory (statsStep env st ing) = bumpCategory (category ing) (byCategory st)"
  by (simp add: statsStep_def bumpStatus_def Let_def)

lemma byCategory_fold:
  assumes "\<forall>ing \<in> set xs. category ing \<notin> set objectPrototypeKeys" "counts (byCategory st)"
  shows "counts (byCategory (fold (\<lambda>ing st. statsStep env st ing) xs st))
       \<and> sumValues (byCategory (fold (\<lambda>ing st. statsStep env st ing) xs st))
           = js_add (sumValues (byCategory st)) (Num (of_nat (length xs)))"
  using assms
proof (induction xs arbitrary: st)
  case Nil
  then show ?case
    by (cases "sumValues (byCategory st)") simp_all
next
  case (Cons x xs)
  have k: "category x \<notin> set objectPrototypeKeys"
    using Cons.prems(1) by simp
  have b: "counts (byCategory (statsStep env st x))
         \<and> sumValues (byCategory (statsStep env st x)) = js_add (sumValues (byCategory st)) (Num 1)"
    unfolding byCategory_step using k Cons.prems(2) by (rule bumpCategory_counts)
  have "\<forall>ing \<in> set xs. category ing \<notin> set objectPrototypeKeys"
    using Cons.prems(1) by simp
  from Cons.IH [OF this conjunct1 [OF b]] show ?case
    using b by (cases "sumValues (byCategory st)") (simp_all add: add.assoc add.commute)
qed

text \<open>
  When no category is the name of a property inherited from \<^verbatim>\<open>Object.prototype\<close>, the
  values of \<open>byCategory\<close> add up to the length of the list as well.
\<close>

lemma stats_byCategory_sum:
  assumes "\<forall>ing \<in> set xs. category ing \<notin> set objectPrototypeKeys"
  shows "sumValues (byCategory (getIngredientStats env xs)) = Num (of_nat (length xs))"
proof -
  let ?st = "\<lparr> total = length xs, expired = 0, critical = 0, warning = 0, fresh = 0, byCategory = [] \<rparr>"
  have "counts (byCategory ?st)"
    by (simp add: counts_def)
  from byCategory_fold [OF assms this, of env] show ?thesis
    by (simp add: getIngredientStats_def sumValues_def)
qed

text \<open>
  C10. What the code does for a category named \<open>constructor\<close>: the first read of
  \<^verbatim>\<open>byCategory['constructor']\<close> finds the inherited function, which is truthy, so the
  count is not initialised and the increment stores \<^verbatim>\<open>NaN\<close>. With one such ingredient
  the values of \<open>byCategory\<close> sum to \<^verbatim>\<open>NaN\<close>, not to the total 1; with two, the second
  pass resets the count and the sum is 1, not 2.
\<close>

theorem stats_inherited_category:
  "getIngredientStats hostTokyo [cheese]
     = \<lparr> total = 1, expired = 0, critical = 1, warning = 0, fresh = 0,
         byCategory = [(''constructor'', NaN)] \<rparr>
 \<and> sumValues (byCategory (getIngredientStats hostTokyo [cheese])) = NaN
 \<and> sumValues (byCategory (getIngredientStats hostTokyo [cheese, cheese])) = Num 1
 \<and> total (getIngredientStats hostTokyo [cheese, cheese]) = 2"
  by code_simp

end
